theory Spec2Isabelle
  imports Main "HOL-Library.Word"
begin

section \<open>Values that cross the boundary\<close>

text \<open>
  The two source files are bindings of one native index (\<open>index_dense_t\<close>) to a host:
  \<open>javascript/lib.cpp\<close> for Node.js and \<open>rust/lib.cpp\<close> for Rust. A key is an unsigned
  64-bit integer. A vector component is a 32-bit float; the bindings never compute with
  one, they only hand it over, so a float is modelled by its 32 bits.
\<close>

type_synonym key_t = "64 word"
type_synonym f32 = "32 word"

text \<open>The engine's enumerations, with the names the sources use for their members.\<close>

datatype metric_kind_t =
  unknown_k | ip_k | l2sq_k | cos_k | pearson_k | haversine_k | hamming_k | tanimoto_k
  | sorensen_k

datatype scalar_kind_t =
  scalar_unknown_k | b1x8_k | f64_k | f32_k | f16_k | i8_k

subsection \<open>What a call into the engine gives back\<close>

text \<open>
  The engine reports a failure in its result object (\<open>result.error\<close>, a message) or by
  throwing. \<open>error = None\<close> is the result that converts to \<open>true\<close>.
\<close>

record result_t =
  error :: "string option"

record labeling_result_t = result_t +
  completed :: bool

record search_result_t = result_t +
  found :: "(key_t \<times> f32) list"

datatype 'a outcome = Returned 'a | Bad_alloc | Thrown

subsection \<open>The engine, as the bindings see it\<close>

text \<open>
  The engine's code is not part of the two source files. The bindings are therefore
  modelled over an arbitrary engine: a state type \<open>'e\<close> and one function for each member
  the sources call on \<open>native_\<close> (JavaScript) or \<open>index_\<close> (Rust). Every call that can change
  the engine returns the next state. The free functions of the engine's headers that the
  sources call (\<open>metric_from_name\<close>, \<open>scalar_kind_from_name\<close>, the defaults) are fields too.

  Sizes, capacities and counts are \<open>std::size_t\<close> in the sources and natural numbers
  here: the sums the sources form (\<open>size + 1\<close>, \<open>size + length\<close>) stay below \<open>2 ^ 64\<close> for
  every index that fits the address space, so none of them wraps around.
\<close>

record 'e index_dense_t =
  native_make :: "nat \<Rightarrow> metric_kind_t \<Rightarrow> scalar_kind_t \<Rightarrow> nat \<Rightarrow> nat \<Rightarrow> nat \<Rightarrow> 'e"
  native_dimensions :: "'e \<Rightarrow> nat"
  native_connectivity :: "'e \<Rightarrow> nat"
  native_size :: "'e \<Rightarrow> nat"
  native_capacity :: "'e \<Rightarrow> nat"
  native_reserve :: "'e \<Rightarrow> nat \<Rightarrow> 'e \<times> bool"
  native_add :: "'e \<Rightarrow> key_t \<Rightarrow> f32 list \<Rightarrow> 'e \<times> result_t outcome"
  native_search :: "'e \<Rightarrow> f32 list \<Rightarrow> nat \<Rightarrow> 'e \<times> search_result_t outcome"
  native_remove :: "'e \<Rightarrow> key_t \<Rightarrow> 'e \<times> labeling_result_t outcome"
  native_rename :: "'e \<Rightarrow> key_t \<Rightarrow> key_t \<Rightarrow> 'e \<times> labeling_result_t outcome"
  native_contains :: "'e \<Rightarrow> key_t \<Rightarrow> 'e \<times> bool outcome"
  native_save :: "'e \<Rightarrow> string \<Rightarrow> 'e \<times> result_t outcome"
  native_load :: "'e \<Rightarrow> string \<Rightarrow> 'e \<times> result_t outcome"
  native_view :: "'e \<Rightarrow> string \<Rightarrow> 'e \<times> result_t outcome"
  metric_from_name :: "string \<Rightarrow> string + metric_kind_t"
  scalar_kind_from_name :: "string \<Rightarrow> string + scalar_kind_t"
  default_members :: nat
  default_connectivity :: nat
  default_expansion_add :: nat
  default_expansion_search :: nat

text \<open>
  Modelled from the spec: \<open>ceil2\<close> is defined in the engine's headers, which are not among
  the sources; the spec calls it \<open>next_power_of_two\<close>. It is the least power of two that
  is not below its argument.
\<close>

fun ceil2 :: "nat \<Rightarrow> nat" where
  "ceil2 n = (if n \<le> 1 then 1 else 2 * ceil2 ((n + 1) div 2))"

declare ceil2.simps [simp del]


section \<open>The JavaScript binding\<close>

subsection \<open>Host values and the error channel\<close>

text \<open>
  The values of the host that the binding tells apart. A BigInt is an unbounded integer.
  A typed array is given by the 32-bit elements the binding reads from it
  (\<open>ElementLength\<close> of them).
\<close>

datatype js_value =
  JSUndefined
  | JSBoolean bool
  | JSBigInt int
  | JSString string
  | JSTypedArray "f32 list"
  | JSArray "js_value list"
  | JSObject "(string \<times> js_value) list"

text \<open>
  \<open>Napi::TypeError::New(env, msg).ThrowAsJavaScriptException()\<close> makes \<open>TypeError msg\<close> the
  pending exception of the host and returns to the C++ caller; the host receives it when
  the function is left. The model keeps what was handed to the host in a list, empty as
  long as no exception is pending. \<open>Napi_Error\<close> is the exception the N-API wrapper itself
  raises when an unchecked cast (\<open>As<Napi::BigInt>\<close>, \<open>As<Napi::Float32Array>\<close>,
  \<open>As<Napi::String>\<close>) meets a value of another type; it leaves the running function.
\<close>

datatype js_error = TypeError string | Napi_Error

fun IsObject :: "js_value \<Rightarrow> bool" where
  "IsObject (JSObject _) = True"
| "IsObject (JSArray _) = True"
| "IsObject (JSTypedArray _) = True"
| "IsObject _ = False"

fun IsString :: "js_value \<Rightarrow> bool" where
  "IsString (JSString _) = True"
| "IsString _ = False"

fun IsBigInt :: "js_value \<Rightarrow> bool" where
  "IsBigInt (JSBigInt _) = True"
| "IsBigInt _ = False"

fun IsArray :: "js_value \<Rightarrow> bool" where
  "IsArray (JSArray _) = True"
| "IsArray _ = False"

fun IsTypedArray :: "js_value \<Rightarrow> bool" where
  "IsTypedArray (JSTypedArray _) = True"
| "IsTypedArray _ = False"

text \<open>
  \<open>BigInt::Uint64Value(&lossless)\<close>: the low 64 bits of the integer, and whether the
  integer is one of the unsigned 64-bit values.
\<close>

definition Uint64Value :: "int \<Rightarrow> key_t \<times> bool" where
  "Uint64Value v = (word_of_int v, 0 \<le> v \<and> v < 2 ^ 64)"

subsection \<open>\<open>Index::Add\<close>\<close>

text \<open>
  The lambda \<open>add\<close> of \<open>Index::Add\<close>, on the engine state and the errors handed to the
  host so far.
\<close>

definition Add_add ::
  "'e index_dense_t \<Rightarrow> nat \<Rightarrow> int \<Rightarrow> f32 list \<Rightarrow> 'e \<times> js_error list \<Rightarrow> 'e \<times> js_error list"
where
  "Add_add ops index_dimensions key_js vector_js st =
     (case st of (s, thrown) \<Rightarrow>
       (case Uint64Value key_js of (key, lossless) \<Rightarrow>
          if \<not> lossless then (s, thrown @ [TypeError ''Keys must be unsigned integers''])
          else if length vector_js \<noteq> index_dimensions
            then (s, thrown @ [TypeError ''Wrong number of dimensions''])
          else
            (case native_add ops s key vector_js of
               (s', Returned result) \<Rightarrow>
                 (case error result of
                    Some msg \<Rightarrow> (s', thrown @ [TypeError msg])
                  | None \<Rightarrow> (s', thrown))
             | (s', Bad_alloc) \<Rightarrow> (s', thrown @ [TypeError ''Out of memory''])
             | (s', Thrown) \<Rightarrow> (s', thrown @ [TypeError ''Insertion failed'']))))"

text \<open>
  The loop of the batch form, over the pairs \<open>(keys_js[i], vectors_js[i])\<close>. Each round
  begins with the element accesses \<open>keys_js[i]\<close> and \<open>vectors_js[i]\<close>. While an exception is
  pending the host refuses such an access, and the wrapper throws out of \<open>Index::Add\<close>: once
  an element has handed an error to the host, no later element is looked at, and that
  error is what the host receives. The casts of the elements are unchecked in the
  source, so an element of another type ends the call with the wrapper's own exception.
\<close>

fun Add_loop ::
  "'e index_dense_t \<Rightarrow> nat \<Rightarrow> (js_value \<times> js_value) list \<Rightarrow> 'e \<times> js_error list
     \<Rightarrow> 'e \<times> js_error list"
where
  "Add_loop ops index_dimensions [] st = st"
| "Add_loop ops index_dimensions ((key_js, vector_js) # rest) st =
     (if snd st \<noteq> [] then st
      else
        (case (key_js, vector_js) of
           (JSBigInt key, JSTypedArray vector) \<Rightarrow>
             Add_loop ops index_dimensions rest (Add_add ops index_dimensions key vector st)
         | _ \<Rightarrow> (fst st, snd st @ [Napi_Error])))"

definition Index_Add :: "'e index_dense_t \<Rightarrow> 'e \<Rightarrow> js_value list \<Rightarrow> 'e \<times> js_error list" where
  "Index_Add ops s ctx =
     (if length ctx < 2 then (s, [TypeError ''Expects at least two arguments''])
      else
        let index_dimensions = native_dimensions ops s in
        (case (ctx ! 0, ctx ! 1) of
           (JSArray keys_js, JSArray vectors_js) \<Rightarrow>
             if length keys_js \<noteq> length vectors_js
             then (s, [TypeError ''The number of keys must match the number of vectors''])
             else if native_size ops s + length keys_js \<ge> native_capacity ops s
             then
               (case native_reserve ops s (ceil2 (native_size ops s + length keys_js)) of
                  (s', reserved) \<Rightarrow>
                    if \<not> reserved then (s', [TypeError ''Out of memory!''])
                    else Add_loop ops index_dimensions (zip keys_js vectors_js) (s', []))
             else Add_loop ops index_dimensions (zip keys_js vectors_js) (s, [])
         | (JSBigInt key_js, JSTypedArray vector_js) \<Rightarrow>
             Add_add ops index_dimensions key_js vector_js
               (if native_size ops s + 1 \<ge> native_capacity ops s
                then fst (native_reserve ops s (ceil2 (native_size ops s + 1)))
                else s, [])
         | _ \<Rightarrow>
             (s, [TypeError
               ''Invalid argument type, expects integral key(s) and float vector(s)''])))"


subsection \<open>\<open>Index::Search\<close>\<close>

text \<open>
  Modelled from the spec: \<open>dump_to\<close> is a member of the engine's search result, not among
  the sources. It copies the matches it holds to the front of the buffer it is given and
  returns their number; the spec has the engine fill at most as many places as were
  wanted. The buffer keeps its length (a write behind its end is not representable).
\<close>

definition dump_to :: "'a list \<Rightarrow> 'a list \<Rightarrow> 'a list" where
  "dump_to xs buffer = take (length buffer) (xs @ drop (length xs) buffer)"

text \<open>
  The object \<open>Index::Search\<close> returns has the fields \<open>keys\<close>, \<open>distances\<close> and \<open>count\<close>; the
  \<open>Matches\<close> of the Rust binding has the first two. The two typed arrays of
  \<open>Index::Search\<close> come from the host, \<open>wanted\<close> places filled with zeros.
\<close>

record Matches =
  keys :: "key_t list"
  distances :: "f32 list"

record search_js = Matches +
  count :: nat

definition Index_Search ::
  "'e index_dense_t \<Rightarrow> 'e \<Rightarrow> js_value list \<Rightarrow> 'e \<times> (js_error + search_js)"
where
  "Index_Search ops s ctx =
     (if length ctx < 2 \<or> \<not> IsTypedArray (ctx ! 0) \<or> \<not> IsBigInt (ctx ! 1)
      then (s, Inl (TypeError ''Expects a  and the number of wanted results''))
      else
        (case (ctx ! 0, ctx ! 1) of
           (JSTypedArray vector_js, JSBigInt wanted_js) \<Rightarrow>
             if length vector_js \<noteq> native_dimensions ops s
             then (s, Inl (TypeError ''Wrong number of dimensions''))
             else
               (case Uint64Value wanted_js of (wanted, lossless) \<Rightarrow>
                  if \<not> lossless
                  then (s, Inl (TypeError
                         ''Wanted number of matches must be an unsigned integer''))
                  else
                    let matches_js = replicate (unat wanted) (0 :: key_t);
                        distances_js = replicate (unat wanted) (0 :: f32)
                    in
                    (case native_search ops s vector_js (unat wanted) of
                       (s', Returned result) \<Rightarrow>
                         (case error result of
                            Some msg \<Rightarrow> (s', Inl (TypeError msg))
                          | None \<Rightarrow>
                              (s', Inr \<lparr>keys = dump_to (map fst (found result)) matches_js,
                                        distances =
                                          dump_to (map snd (found result)) distances_js,
                                        count = length (found result)\<rparr>))
                     | (s', Bad_alloc) \<Rightarrow> (s', Inl (TypeError ''Out of memory''))
                     | (s', Thrown) \<Rightarrow> (s', Inl (TypeError ''Search failed''))))
         | _ \<Rightarrow> (s, Inl (TypeError ''Expects a  and the number of wanted results''))))"

subsection \<open>\<open>Index::Remove\<close> and \<open>Index::Contains\<close>\<close>

definition Index_Remove ::
  "'e index_dense_t \<Rightarrow> 'e \<Rightarrow> js_value list \<Rightarrow> 'e \<times> (js_error + bool)"
where
  "Index_Remove ops s ctx =
     (if length ctx < 1 \<or> \<not> IsBigInt (ctx ! 0)
      then (s, Inl (TypeError ''Expects an entry identifier''))
      else
        (case ctx ! 0 of
           JSBigInt key_js \<Rightarrow>
             (case Uint64Value key_js of (key, lossless) \<Rightarrow>
                if \<not> lossless
                then (s, Inl (TypeError ''Identifier must be an unsigned integer''))
                else
                  (case native_remove ops s key of
                     (s', Returned result) \<Rightarrow>
                       (case error result of
                          Some msg \<Rightarrow> (s', Inl (TypeError msg))
                        | None \<Rightarrow> (s', Inr (completed result)))
                   | (s', Bad_alloc) \<Rightarrow> (s', Inl (TypeError ''Out of memory''))
                   | (s', Thrown) \<Rightarrow> (s', Inl (TypeError ''Search failed''))))
         | _ \<Rightarrow> (s, Inl (TypeError ''Expects an entry identifier''))))"

definition Index_Contains ::
  "'e index_dense_t \<Rightarrow> 'e \<Rightarrow> js_value list \<Rightarrow> 'e \<times> (js_error + bool)"
where
  "Index_Contains ops s ctx =
     (if length ctx < 1 \<or> \<not> IsBigInt (ctx ! 0)
      then (s, Inl (TypeError ''Expects an entry identifier''))
      else
        (case ctx ! 0 of
           JSBigInt key_js \<Rightarrow>
             (case Uint64Value key_js of (key, lossless) \<Rightarrow>
                if \<not> lossless
                then (s, Inl (TypeError ''Identifier must be an unsigned integer''))
                else
                  (case native_contains ops s key of
                     (s', Returned result) \<Rightarrow> (s', Inr result)
                   | (s', Bad_alloc) \<Rightarrow> (s', Inl (TypeError ''Out of memory''))
                   | (s', Thrown) \<Rightarrow> (s', Inl (TypeError ''Search failed''))))
         | _ \<Rightarrow> (s, Inl (TypeError ''Expects an entry identifier''))))"

subsection \<open>\<open>Index::Save\<close>, \<open>Index::Load\<close>, \<open>Index::View\<close>\<close>

text \<open>\<open>path.c_str()\<close>: the engine reads the characters before the first NUL.\<close>

definition c_str :: "string \<Rightarrow> string" where
  "c_str path = takeWhile (\<lambda>c. c \<noteq> CHR 0x00) path"

text \<open>
  The three functions differ in the engine member they call and in the message of the
  \<open>catch (...)\<close>; \<open>persist\<close> is their common body.
\<close>

definition persist ::
  "('e \<Rightarrow> string \<Rightarrow> 'e \<times> result_t outcome) \<Rightarrow> string \<Rightarrow> 'e \<Rightarrow> js_value list
     \<Rightarrow> 'e \<times> js_error list"
where
  "persist member caught s ctx =
     (if length ctx = 0 \<or> \<not> IsString (ctx ! 0)
      then (s, [TypeError ''Function expects a string path argument''])
      else
        (case ctx ! 0 of
           JSString path \<Rightarrow>
             (case member s (c_str path) of
                (s', Returned result) \<Rightarrow>
                  (case error result of
                     Some msg \<Rightarrow> (s', [TypeError msg])
                   | None \<Rightarrow> (s', []))
              | (s', _) \<Rightarrow> (s', [TypeError caught]))
         | _ \<Rightarrow> (s, [TypeError ''Function expects a string path argument''])))"

definition Index_Save :: "'e index_dense_t \<Rightarrow> 'e \<Rightarrow> js_value list \<Rightarrow> 'e \<times> js_error list" where
  "Index_Save ops = persist (native_save ops) ''Serialization failed''"

definition Index_Load :: "'e index_dense_t \<Rightarrow> 'e \<Rightarrow> js_value list \<Rightarrow> 'e \<times> js_error list" where
  "Index_Load ops = persist (native_load ops) ''Loading failed''"

definition Index_View :: "'e index_dense_t \<Rightarrow> 'e \<Rightarrow> js_value list \<Rightarrow> 'e \<times> js_error list" where
  "Index_View ops = persist (native_view ops) ''Memory-mapping failed''"

subsection \<open>The accessors\<close>

definition GetDimensions :: "'e index_dense_t \<Rightarrow> 'e \<Rightarrow> nat" where
  "GetDimensions ops s = native_dimensions ops s"

definition GetSize :: "'e index_dense_t \<Rightarrow> 'e \<Rightarrow> nat" where
  "GetSize ops s = native_size ops s"

definition GetConnectivity :: "'e index_dense_t \<Rightarrow> 'e \<Rightarrow> nat" where
  "GetConnectivity ops s = native_connectivity ops s"

definition GetCapacity :: "'e index_dense_t \<Rightarrow> 'e \<Rightarrow> nat" where
  "GetCapacity ops s = native_capacity ops s"

subsection \<open>The constructor\<close>

text \<open>
  \<open>params.Has(name) ? params.Get(name).As<Napi::BigInt>().Uint64Value(&lossless) : d\<close>.
  Every conversion writes \<open>lossless\<close> anew; \<open>None\<close> is the wrapper's exception at a value
  that is no BigInt.
\<close>

fun properties :: "js_value \<Rightarrow> (string \<times> js_value) list" where
  "properties (JSObject params) = params"
| "properties _ = []"

definition uint_param ::
  "(string \<times> js_value) list \<Rightarrow> string \<Rightarrow> nat \<Rightarrow> bool \<Rightarrow> (nat \<times> bool) option"
where
  "uint_param params name d lossless =
     (case map_of params name of
        None \<Rightarrow> Some (d, lossless)
      | Some (JSBigInt v) \<Rightarrow> Some (unat (fst (Uint64Value v)), snd (Uint64Value v))
      | Some _ \<Rightarrow> None)"

definition name_param ::
  "(string \<times> js_value) list \<Rightarrow> string \<Rightarrow> 'k \<Rightarrow> (string \<Rightarrow> string + 'k) \<Rightarrow> js_error + 'k"
where
  "name_param params name d from_name =
     (case map_of params name of
        None \<Rightarrow> Inr d
      | Some (JSString str) \<Rightarrow>
          (case from_name str of
             Inl msg \<Rightarrow> Inl (TypeError msg)
           | Inr kind \<Rightarrow> Inr kind)
      | Some _ \<Rightarrow> Inl Napi_Error)"

definition Index_Index :: "'e index_dense_t \<Rightarrow> js_value list \<Rightarrow> js_error + 'e" where
  "Index_Index ops ctx =
     (if length ctx = 0 \<or> length ctx \<ge> 2 \<or> \<not> IsObject (ctx ! 0)
      then Inl (TypeError
        ''Pass args as named objects: dimensions: uint, capacity: uint, metric: str'')
      else
        let params = properties (ctx ! 0) in
        (case uint_param params ''dimensions'' 0 True of
           None \<Rightarrow> Inl Napi_Error
         | Some (dimensions, l1) \<Rightarrow>
        (case uint_param params ''capacity'' (default_members ops) l1 of
           None \<Rightarrow> Inl Napi_Error
         | Some (members, l2) \<Rightarrow>
        (case uint_param params ''connectivity'' (default_connectivity ops) l2 of
           None \<Rightarrow> Inl Napi_Error
         | Some (connectivity, l3) \<Rightarrow>
        (case uint_param params ''expansion_add'' (default_expansion_add ops) l3 of
           None \<Rightarrow> Inl Napi_Error
         | Some (expansion_add, l4) \<Rightarrow>
        (case uint_param params ''expansion_search'' (default_expansion_search ops) l4 of
           None \<Rightarrow> Inl Napi_Error
         | Some (expansion_search, lossless) \<Rightarrow>
        if \<not> lossless then Inl (TypeError ''Arguments must be unsigned integers'')
        else
        (case name_param params ''quantization'' f32_k (scalar_kind_from_name ops) of
           Inl e \<Rightarrow> Inl e
         | Inr quantization \<Rightarrow>
        (case name_param params ''metric'' ip_k (metric_from_name ops) of
           Inl e \<Rightarrow> Inl e
         | Inr metric_kind \<Rightarrow>
             Inr (fst (native_reserve ops
                    (native_make ops dimensions metric_kind quantization connectivity
                       expansion_add expansion_search)
                    members))))))))))"


section \<open>The Rust binding\<close>

text \<open>
  The Rust binding has no argument of a wrong type to refuse. What leaves a function
  other than its value is an exception: the one \<open>error.raise()\<close> throws for the message of
  a result, or one the engine threw, which passes through. \<open>add\<close> and \<open>search\<close> hand the
  engine the data of the slice they are given; neither compares its length with the
  dimensionality of the index.
\<close>

datatype rust_error = Raised string | Passed_bad_alloc | Passed_exception

definition Index_add ::
  "'e index_dense_t \<Rightarrow> 'e \<Rightarrow> key_t \<Rightarrow> f32 list \<Rightarrow> 'e \<times> rust_error option"
where
  "Index_add ops s key vector =
     (case native_add ops s key vector of
        (s', Returned result) \<Rightarrow>
          (case error result of
             Some msg \<Rightarrow> (s', Some (Raised msg))
           | None \<Rightarrow> (s', None))
      | (s', Bad_alloc) \<Rightarrow> (s', Some Passed_bad_alloc)
      | (s', Thrown) \<Rightarrow> (s', Some Passed_exception))"

definition Index_remove ::
  "'e index_dense_t \<Rightarrow> 'e \<Rightarrow> key_t \<Rightarrow> 'e \<times> (rust_error + bool)"
where
  "Index_remove ops s key =
     (case native_remove ops s key of
        (s', Returned result) \<Rightarrow>
          (case error result of
             Some msg \<Rightarrow> (s', Inl (Raised msg))
           | None \<Rightarrow> (s', Inr (completed result)))
      | (s', Bad_alloc) \<Rightarrow> (s', Inl Passed_bad_alloc)
      | (s', Thrown) \<Rightarrow> (s', Inl Passed_exception))"


definition Index_contains ::
  "'e index_dense_t \<Rightarrow> 'e \<Rightarrow> key_t \<Rightarrow> 'e \<times> (rust_error + bool)"
where
  "Index_contains ops s key =
     (case native_contains ops s key of
        (s', Returned result) \<Rightarrow> (s', Inr result)
      | (s', Bad_alloc) \<Rightarrow> (s', Inl Passed_bad_alloc)
      | (s', Thrown) \<Rightarrow> (s', Inl Passed_exception))"

text \<open>
  \<open>Index::search\<close>: the loop pushes \<open>count\<close> zeros to both vectors (\<open>push_zeros\<close>, by the
  number of rounds left), the engine's matches are copied to their front, and \<open>truncate\<close>
  keeps the first \<open>count\<close> places, \<open>count\<close> now being what \<open>dump_to\<close> returned.
\<close>

primrec push_zeros :: "nat \<Rightarrow> 'a::zero list \<Rightarrow> 'a list" where
  "push_zeros 0 xs = xs"
| "push_zeros (Suc n) xs = push_zeros n (xs @ [0])"

definition Index_search ::
  "'e index_dense_t \<Rightarrow> 'e \<Rightarrow> f32 list \<Rightarrow> nat \<Rightarrow> 'e \<times> (rust_error + Matches)"
where
  "Index_search ops s vector count0 =
     (let keys0 = push_zeros count0 ([] :: key_t list);
          distances0 = push_zeros count0 ([] :: f32 list)
      in
      (case native_search ops s vector count0 of
         (s', Returned result) \<Rightarrow>
           (case error result of
              Some msg \<Rightarrow> (s', Inl (Raised msg))
            | None \<Rightarrow>
                let count1 = length (found result) in
                (s', Inr \<lparr>keys = take count1 (dump_to (map fst (found result)) keys0),
                          distances =
                            take count1 (dump_to (map snd (found result)) distances0)\<rparr>))
       | (s', Bad_alloc) \<Rightarrow> (s', Inl Passed_bad_alloc)
       | (s', Thrown) \<Rightarrow> (s', Inl Passed_exception)))"

text \<open>\<open>Index::reserve\<close> drops what the engine's \<open>reserve\<close> returns.\<close>

definition Index_reserve :: "'e index_dense_t \<Rightarrow> 'e \<Rightarrow> nat \<Rightarrow> 'e" where
  "Index_reserve ops s capacity = fst (native_reserve ops s capacity)"

definition Index_dimensions :: "'e index_dense_t \<Rightarrow> 'e \<Rightarrow> nat" where
  "Index_dimensions ops s = native_dimensions ops s"

definition Index_connectivity :: "'e index_dense_t \<Rightarrow> 'e \<Rightarrow> nat" where
  "Index_connectivity ops s = native_connectivity ops s"

definition Index_size :: "'e index_dense_t \<Rightarrow> 'e \<Rightarrow> nat" where
  "Index_size ops s = native_size ops s"

definition Index_capacity :: "'e index_dense_t \<Rightarrow> 'e \<Rightarrow> nat" where
  "Index_capacity ops s = native_capacity ops s"






subsection \<open>\<open>new_index\<close>\<close>

text \<open>
  The members the two \<open>switch\<close> statements list, and one more value each for whatever
  else the enumeration's underlying integer can hold: the \<open>default\<close> branch.
\<close>

datatype MetricKind =
  MetricKind_IP | MetricKind_L2sq | MetricKind_Cos | MetricKind_Pearson
  | MetricKind_Haversine | MetricKind_Hamming | MetricKind_Tanimoto | MetricKind_Sorensen
  | MetricKind_unlisted

datatype ScalarKind =
  ScalarKind_I8 | ScalarKind_F16 | ScalarKind_F32 | ScalarKind_F64 | ScalarKind_B1
  | ScalarKind_unlisted

fun rust_to_cpp_metric :: "MetricKind \<Rightarrow> metric_kind_t" where
  "rust_to_cpp_metric MetricKind_IP = ip_k"
| "rust_to_cpp_metric MetricKind_L2sq = l2sq_k"
| "rust_to_cpp_metric MetricKind_Cos = cos_k"
| "rust_to_cpp_metric MetricKind_Pearson = pearson_k"
| "rust_to_cpp_metric MetricKind_Haversine = haversine_k"
| "rust_to_cpp_metric MetricKind_Hamming = hamming_k"
| "rust_to_cpp_metric MetricKind_Tanimoto = tanimoto_k"
| "rust_to_cpp_metric MetricKind_Sorensen = sorensen_k"
| "rust_to_cpp_metric _ = unknown_k"

fun rust_to_cpp_scalar :: "ScalarKind \<Rightarrow> scalar_kind_t" where
  "rust_to_cpp_scalar ScalarKind_I8 = i8_k"
| "rust_to_cpp_scalar ScalarKind_F16 = f16_k"
| "rust_to_cpp_scalar ScalarKind_F32 = f32_k"
| "rust_to_cpp_scalar ScalarKind_F64 = f64_k"
| "rust_to_cpp_scalar ScalarKind_B1 = b1x8_k"
| "rust_to_cpp_scalar _ = scalar_unknown_k"

record IndexOptions =
  dimensions :: nat
  metric :: MetricKind
  quantization :: ScalarKind
  connectivity :: nat
  expansion_add :: nat
  expansion_search :: nat

definition new_index :: "'e index_dense_t \<Rightarrow> IndexOptions \<Rightarrow> 'e" where
  "new_index ops options =
     (let metric_kind = rust_to_cpp_metric (metric options);
          scalar_kind = rust_to_cpp_scalar (quantization options)
      in native_make ops (dimensions options) metric_kind scalar_kind
           (connectivity options) (expansion_add options) (expansion_search options))"


section \<open>Observing the engine\<close>

subsection \<open>The calls a binding makes\<close>

text \<open>
  To say which members of the engine a binding calls, and in which order, any engine can
  be run with a record of the calls made on it. The accessors (\<open>dimensions\<close>, \<open>size\<close>,
  \<open>capacity\<close>, \<open>connectivity\<close>) read only and are not recorded.
\<close>

datatype call =
  Reserve nat
  | Add key_t "f32 list"
  | Search "f32 list" nat
  | Remove key_t
  | Rename key_t key_t
  | Contains key_t
  | Save string
  | Load string
  | View string

definition record_call :: "call \<Rightarrow> call list \<Rightarrow> 'e \<times> 'r \<Rightarrow> ('e \<times> call list) \<times> 'r" where
  "record_call c calls r = ((fst r, calls @ [c]), snd r)"

definition logged :: "'e index_dense_t \<Rightarrow> ('e \<times> call list) index_dense_t" where
  "logged ops =
     \<lparr>native_make = (\<lambda>d m q c a b. (native_make ops d m q c a b, [])),
      native_dimensions = (\<lambda>sl. native_dimensions ops (fst sl)),
      native_connectivity = (\<lambda>sl. native_connectivity ops (fst sl)),
      native_size = (\<lambda>sl. native_size ops (fst sl)),
      native_capacity = (\<lambda>sl. native_capacity ops (fst sl)),
      native_reserve =
        (\<lambda>sl n. record_call (Reserve n) (snd sl) (native_reserve ops (fst sl) n)),
      native_add =
        (\<lambda>sl k v. record_call (Add k v) (snd sl) (native_add ops (fst sl) k v)),
      native_search =
        (\<lambda>sl v n. record_call (Search v n) (snd sl) (native_search ops (fst sl) v n)),
      native_remove =
        (\<lambda>sl k. record_call (Remove k) (snd sl) (native_remove ops (fst sl) k)),
      native_rename =
        (\<lambda>sl k k'. record_call (Rename k k') (snd sl) (native_rename ops (fst sl) k k')),
      native_contains =
        (\<lambda>sl k. record_call (Contains k) (snd sl) (native_contains ops (fst sl) k)),
      native_save =
        (\<lambda>sl p. record_call (Save p) (snd sl) (native_save ops (fst sl) p)),
      native_load =
        (\<lambda>sl p. record_call (Load p) (snd sl) (native_load ops (fst sl) p)),
      native_view =
        (\<lambda>sl p. record_call (View p) (snd sl) (native_view ops (fst sl) p)),
      metric_from_name = metric_from_name ops,
      scalar_kind_from_name = scalar_kind_from_name ops,
      default_members = default_members ops,
      default_connectivity = default_connectivity ops,
      default_expansion_add = default_expansion_add ops,
      default_expansion_search = default_expansion_search ops\<rparr>"

fun is_Reserve :: "call \<Rightarrow> bool" where
  "is_Reserve (Reserve _) = True"
| "is_Reserve _ = False"

fun is_Add :: "call \<Rightarrow> bool" where
  "is_Add (Add _ _) = True"
| "is_Add _ = False"

subsection \<open>A reference engine\<close>

text \<open>
  Modelled from the spec: the engine itself (\<open>index_dense_t\<close> and the free functions of its
  headers) is not among the sources. This one keeps what the spec says of the engine: a
  fixed dimensionality, a reserved capacity that \<open>reserve\<close> raises unless the allocation
  fails, entries with unique keys, \<open>remove\<close> and \<open>rename\<close> that complete only for a present
  key, files by path, and the name tables of the spec. An allocation fails when more
  than \<open>memory\<close> entries are asked for. Distances are floating point and are not
  computed: \<open>search\<close> reports the first entries, at most as many as wanted, each with the
  distance bits \<open>0\<close>.
\<close>

record reference =
  r_dimensions :: nat
  r_connectivity :: nat
  r_capacity :: nat
  r_entries :: "(key_t \<times> f32 list) list"
  r_files :: "(string \<times> (key_t \<times> f32 list) list) list"

definition ok :: result_t where
  "ok = \<lparr>error = None\<rparr>"

definition failed :: "string \<Rightarrow> result_t" where
  "failed msg = \<lparr>error = Some msg\<rparr>"

text \<open>
  Modelled from the spec: \<open>reserve(capacity)\<close>. It fails, and changes nothing, when the
  allocator cannot serve the request; it never lowers the capacity.
\<close>

definition r_reserve :: "nat \<Rightarrow> reference \<Rightarrow> nat \<Rightarrow> reference \<times> bool" where
  "r_reserve memory s n =
     (if n \<le> memory then (s\<lparr>r_capacity := max n (r_capacity s)\<rparr>, True) else (s, False))"

text \<open>
  Modelled from the spec: \<open>add(key, vector)\<close>. The engine keeps the keys unique and needs
  room that was reserved.
\<close>

definition r_add :: "reference \<Rightarrow> key_t \<Rightarrow> f32 list \<Rightarrow> reference \<times> result_t outcome" where
  "r_add s k v =
     (if r_capacity s \<le> length (r_entries s) then (s, Returned (failed ''capacity exhausted''))
      else if k \<in> set (map fst (r_entries s)) then (s, Returned (failed ''duplicate key''))
      else (s\<lparr>r_entries := r_entries s @ [(k, v)]\<rparr>, Returned ok))"

text \<open>Modelled from the spec: \<open>search(vector, k)\<close>, at most \<open>k\<close> matches.\<close>

definition r_search ::
  "reference \<Rightarrow> f32 list \<Rightarrow> nat \<Rightarrow> reference \<times> search_result_t outcome"
where
  "r_search s v n =
     (s, Returned \<lparr>error = None, found = take n (map (\<lambda>e. (fst e, 0)) (r_entries s))\<rparr>)"

text \<open>
  Modelled from the spec: \<open>remove(key)\<close>; \<open>completed\<close> tells whether the key was there.
\<close>

definition r_remove :: "reference \<Rightarrow> key_t \<Rightarrow> reference \<times> labeling_result_t outcome" where
  "r_remove s k =
     (if k \<in> set (map fst (r_entries s))
      then (s\<lparr>r_entries := filter (\<lambda>e. fst e \<noteq> k) (r_entries s)\<rparr>,
            Returned \<lparr>error = None, completed = True\<rparr>)
      else (s, Returned \<lparr>error = None, completed = False\<rparr>))"

text \<open>
  Modelled from the spec: \<open>rename(from, to)\<close>; an error when \<open>to\<close> is taken, \<open>completed\<close>
  false when \<open>from\<close> is absent.
\<close>

definition r_rename ::
  "reference \<Rightarrow> key_t \<Rightarrow> key_t \<Rightarrow> reference \<times> labeling_result_t outcome"
where
  "r_rename s k k' =
     (if k \<notin> set (map fst (r_entries s))
      then (s, Returned \<lparr>error = None, completed = False\<rparr>)
      else if k' \<in> set (map fst (r_entries s))
      then (s, Returned \<lparr>error = Some ''duplicate key'', completed = False\<rparr>)
      else (s\<lparr>r_entries := map (\<lambda>e. if fst e = k then (k', snd e) else e) (r_entries s)\<rparr>,
            Returned \<lparr>error = None, completed = True\<rparr>))"

text \<open>Modelled from the spec: \<open>contains(key)\<close>, a pure read.\<close>

definition r_contains :: "reference \<Rightarrow> key_t \<Rightarrow> reference \<times> bool outcome" where
  "r_contains s k = (s, Returned (k \<in> set (map fst (r_entries s))))"

text \<open>Modelled from the spec: \<open>save(path)\<close> writes the entries to the path.\<close>

definition r_save :: "reference \<Rightarrow> string \<Rightarrow> reference \<times> result_t outcome" where
  "r_save s p = (s\<lparr>r_files := (p, r_entries s) # r_files s\<rparr>, Returned ok)"

text \<open>
  Modelled from the spec: \<open>load(path)\<close> and \<open>view(path)\<close> replace the entries by those of
  the file, and fail when there is none.
\<close>

definition r_load :: "reference \<Rightarrow> string \<Rightarrow> reference \<times> result_t outcome" where
  "r_load s p =
     (case map_of (r_files s) p of
        None \<Rightarrow> (s, Returned (failed ''no such file''))
      | Some es \<Rightarrow>
          (s\<lparr>r_entries := es, r_capacity := max (length es) (r_capacity s)\<rparr>, Returned ok))"

text \<open>Modelled from the spec: \<open>metric_from_name\<close>, by the spec's table of eight names.\<close>

definition r_metric_from_name :: "string \<Rightarrow> string + metric_kind_t" where
  "r_metric_from_name name =
     (case map_of
        [(''ip'', ip_k), (''l2sq'', l2sq_k), (''cos'', cos_k), (''pearson'', pearson_k),
         (''haversine'', haversine_k), (''hamming'', hamming_k),
         (''tanimoto'', tanimoto_k), (''sorensen'', sorensen_k)] name of
        Some kind \<Rightarrow> Inr kind
      | None \<Rightarrow> Inl ''unknown metric name'')"

text \<open>
  Modelled from the spec: \<open>scalar_kind_from_name\<close>, by the spec's table of five names.
\<close>

definition r_scalar_kind_from_name :: "string \<Rightarrow> string + scalar_kind_t" where
  "r_scalar_kind_from_name name =
     (case map_of
        [(''f64'', f64_k), (''f32'', f32_k), (''f16'', f16_k), (''i8'', i8_k),
         (''b1'', b1x8_k)] name of
        Some kind \<Rightarrow> Inr kind
      | None \<Rightarrow> Inl ''unknown quantization name'')"

text \<open>
  Modelled from the spec: the engine as a whole; \<open>make\<close> gives an empty index without
  capacity, and the defaults are the engine's.
\<close>

definition reference_engine :: "nat \<Rightarrow> reference index_dense_t" where
  "reference_engine memory =
     \<lparr>native_make = (\<lambda>d m q c a b.
        \<lparr>r_dimensions = d, r_connectivity = c, r_capacity = 0, r_entries = [],
         r_files = []\<rparr>),
      native_dimensions = r_dimensions,
      native_connectivity = r_connectivity,
      native_size = (\<lambda>s. length (r_entries s)),
      native_capacity = r_capacity,
      native_reserve = r_reserve memory,
      native_add = r_add,
      native_search = r_search,
      native_remove = r_remove,
      native_rename = r_rename,
      native_contains = r_contains,
      native_save = r_save,
      native_load = r_load,
      native_view = r_load,
      metric_from_name = r_metric_from_name,
      scalar_kind_from_name = r_scalar_kind_from_name,
      default_members = 0,
      default_connectivity = 16,
      default_expansion_add = 128,
      default_expansion_search = 64\<rparr>"

text \<open>An empty reference index of the given dimensionality and capacity.\<close>

definition fresh :: "nat \<Rightarrow> nat \<Rightarrow> reference" where
  "fresh d n =
     \<lparr>r_dimensions = d, r_connectivity = 16, r_capacity = n, r_entries = [], r_files = []\<rparr>"


section \<open>Notions used to state the properties\<close>

text \<open>
  An element of a batch, or the pair of a single add, passes the checks of the lambda
  \<open>add\<close> when its key is an unsigned 64-bit value and its vector has the index's length.
\<close>

definition valid_element :: "nat \<Rightarrow> int \<times> f32 list \<Rightarrow> bool" where
  "valid_element d kv \<longleftrightarrow> 0 \<le> fst kv \<and> fst kv < 2 ^ 64 \<and> length (snd kv) = d"

text \<open>The call of the engine's \<open>add\<close> that a valid element leads to.\<close>

definition add_call :: "int \<times> f32 list \<Rightarrow> call" where
  "add_call kv = Add (word_of_int (fst kv)) (snd kv)"


text \<open>The calls recorded on an engine that was run with \<open>logged\<close>.\<close>

definition calls :: "('e \<times> call list) \<times> 'r \<Rightarrow> call list" where
  "calls r = snd (fst r)"

text \<open>An exponent \<open>k\<close> with \<open>n = 2 ^ k\<close> is below \<open>n\<close>, so the search for one is bounded.\<close>

definition power_of_two :: "nat \<Rightarrow> bool" where
  "power_of_two n \<longleftrightarrow> (\<exists>k \<in> {..n}. n = 2 ^ k)"

text \<open>A reference index of two dimensions and capacity four that holds one entry.\<close>

definition one_entry :: reference where
  "one_entry = (fresh 2 4)\<lparr>r_entries := [(5, [1, 2])]\<rparr>"

text \<open>
  Modelled from the spec: the names the spec lists as recognized, eight for the metric
  and five for the quantization.
\<close>

definition metric_names :: "string list" where
  "metric_names =
     [''ip'', ''l2sq'', ''cos'', ''pearson'', ''haversine'', ''hamming'', ''tanimoto'',
      ''sorensen'']"

definition quantization_names :: "string list" where
  "quantization_names = [''f64'', ''f32'', ''f16'', ''i8'', ''b1'']"

section \<open>Auxiliary facts\<close>

subsection \<open>\<open>ceil2\<close>\<close>


lemma ceil2_ge: "n \<le> ceil2 n"
proof (induction n rule: ceil2.induct)
  case (1 n)
  show ?case
  proof (cases "n \<le> 1")
    case True
    then show ?thesis by (simp add: ceil2.simps [of n])
  next
    case False
    with 1 have "(n + 1) div 2 \<le> ceil2 ((n + 1) div 2)" by simp
    with False show ?thesis by (simp add: ceil2.simps [of n])
  qed
qed

lemma power_of_two_iff: "power_of_two n \<longleftrightarrow> (\<exists>k. n = 2 ^ k)"
proof
  assume "\<exists>k. n = 2 ^ k"
  then obtain k where k: "n = 2 ^ k" ..
  have "k < 2 ^ k" by (rule less_exp)
  with k have "k \<in> {..n}" by simp
  with k show "power_of_two n" unfolding power_of_two_def by blast
qed (auto simp add: power_of_two_def)

lemma ceil2_power: "power_of_two (ceil2 n)"
proof (induction n rule: ceil2.induct)
  case (1 n)
  show ?case
  proof (cases "n \<le> 1")
    case True
    have "ceil2 n = 2 ^ 0" using True by (simp add: ceil2.simps [of n])
    then show ?thesis unfolding power_of_two_iff by blast
  next
    case False
    with 1 obtain k where "ceil2 ((n + 1) div 2) = 2 ^ k" by (auto simp: power_of_two_iff)
    with False have "ceil2 n = 2 ^ Suc k" by (simp add: ceil2.simps [of n])
    then show ?thesis unfolding power_of_two_iff by blast
  qed
qed

lemma ceil2_least: "n \<le> 2 ^ k \<Longrightarrow> ceil2 n \<le> 2 ^ k"
proof (induction n arbitrary: k rule: ceil2.induct)
  case (1 n)
  show ?case
  proof (cases "n \<le> 1")
    case True
    then show ?thesis by (simp add: ceil2.simps [of n])
  next
    case False
    then obtain j where k: "k = Suc j" using "1.prems" by (cases k) auto
    with "1.prems" have "(n + 1) div 2 \<le> 2 ^ j" by simp
    with 1 False have "ceil2 ((n + 1) div 2) \<le> 2 ^ j" by simp
    with False k show ?thesis by (simp add: ceil2.simps [of n])
  qed
qed

lemma ceil2_1: "ceil2 1 = 1" "ceil2 (Suc 0) = 1"
  by (simp_all add: ceil2.simps)

lemma ceil2_3: "ceil2 3 = 4" "ceil2 (Suc (Suc (Suc 0))) = 4"
  by (simp_all add: ceil2.simps)


subsection \<open>The recorded calls\<close>


lemma logged_simps [simp]:
  "native_dimensions (logged ops) sl = native_dimensions ops (fst sl)"
  "native_connectivity (logged ops) sl = native_connectivity ops (fst sl)"
  "native_size (logged ops) sl = native_size ops (fst sl)"
  "native_capacity (logged ops) sl = native_capacity ops (fst sl)"
  "native_reserve (logged ops) sl n = record_call (Reserve n) (snd sl) (native_reserve ops (fst sl) n)"
  "native_add (logged ops) sl k v = record_call (Add k v) (snd sl) (native_add ops (fst sl) k v)"
  "native_search (logged ops) sl v n = record_call (Search v n) (snd sl) (native_search ops (fst sl) v n)"
  "native_remove (logged ops) sl k = record_call (Remove k) (snd sl) (native_remove ops (fst sl) k)"
  "native_rename (logged ops) sl k k' = record_call (Rename k k') (snd sl) (native_rename ops (fst sl) k k')"
  "native_contains (logged ops) sl k = record_call (Contains k) (snd sl) (native_contains ops (fst sl) k)"
  "native_save (logged ops) sl p = record_call (Save p) (snd sl) (native_save ops (fst sl) p)"
  "native_load (logged ops) sl p = record_call (Load p) (snd sl) (native_load ops (fst sl) p)"
  "native_view (logged ops) sl p = record_call (View p) (snd sl) (native_view ops (fst sl) p)"
  by (simp_all add: logged_def)

subsection \<open>The reference engine\<close>


lemma reference_simps [simp]:
  "native_make (reference_engine m) d mk q c a b =
     \<lparr>r_dimensions = d, r_connectivity = c, r_capacity = 0, r_entries = [], r_files = []\<rparr>"
  "native_dimensions (reference_engine m) = r_dimensions"
  "native_connectivity (reference_engine m) = r_connectivity"
  "native_size (reference_engine m) = (\<lambda>s. length (r_entries s))"
  "native_capacity (reference_engine m) = r_capacity"
  "native_reserve (reference_engine m) = r_reserve m"
  "native_add (reference_engine m) = r_add"
  "native_search (reference_engine m) = r_search"
  "native_remove (reference_engine m) = r_remove"
  "native_rename (reference_engine m) = r_rename"
  "native_contains (reference_engine m) = r_contains"
  "native_save (reference_engine m) = r_save"
  "native_load (reference_engine m) = r_load"
  "native_view (reference_engine m) = r_load"
  "metric_from_name (reference_engine m) = r_metric_from_name"
  "scalar_kind_from_name (reference_engine m) = r_scalar_kind_from_name"
  "default_members (reference_engine m) = 0"
  "default_connectivity (reference_engine m) = 16"
  "default_expansion_add (reference_engine m) = 128"
  "default_expansion_search (reference_engine m) = 64"
  by (simp_all add: reference_engine_def)

lemma r_add_capacity: "r_capacity (fst (r_add s k v)) = r_capacity s"
  by (simp add: r_add_def)

subsection \<open>\<open>Index::Add\<close>\<close>


lemma Add_add_invalid:
  "\<not> valid_element d (k, v) \<Longrightarrow>
   Add_add ops d k v (s, thrown) =
     (s, thrown @ [TypeError (if 0 \<le> k \<and> k < 2 ^ 64 then ''Wrong number of dimensions''
                              else ''Keys must be unsigned integers'')])"
  by (auto simp add: Add_add_def Uint64Value_def valid_element_def)

lemma Add_add_logged:
  "Add_add (logged ops) d k v ((s, l), thrown) =
     ((fst (Add_add ops d k v (s, thrown)),
       l @ (if valid_element d (k, v) then [add_call (k, v)] else [])),
      snd (Add_add ops d k v (s, thrown)))"
  by (simp add: Add_add_def Uint64Value_def record_call_def valid_element_def add_call_def
      split: prod.splits outcome.splits option.splits)



lemma Add_loop_Cons:
  "(snd st \<noteq> [] \<and> Add_loop ops d (p # rest) st = st)
   \<or> (snd st = []
      \<and> (\<exists>key vec. p = (JSBigInt key, JSTypedArray vec)
           \<and> Add_loop ops d (p # rest) st = Add_loop ops d rest (Add_add ops d key vec st)))
   \<or> (snd st = [] \<and> Add_loop ops d (p # rest) st = (fst st, [Napi_Error]))"
  by (cases p; cases "fst p"; cases "snd p") auto





text \<open>Whatever the elements are, the loop calls no member of the engine but \<open>add\<close>.\<close>

lemma Add_loop_calls:
  "\<exists>adds. snd (fst (Add_loop (logged ops) d pairs (sl, thrown))) = snd sl @ adds
      \<and> list_all is_Add adds"
proof (induction pairs arbitrary: sl thrown)
  case Nil
  then show ?case by simp
next
  case (Cons p rest)
  from Add_loop_Cons [of "(sl, thrown)" "logged ops" d p rest] show ?case
  proof (elim disjE conjE exE)
    assume "Add_loop (logged ops) d (p # rest) (sl, thrown) = (sl, thrown)"
    then show ?thesis by simp
  next
    fix key vec
    assume step: "Add_loop (logged ops) d (p # rest) (sl, thrown) =
        Add_loop (logged ops) d rest (Add_add (logged ops) d key vec (sl, thrown))"
    obtain s l where sl: "sl = (s, l)" by (cases sl)
    obtain sl' thrown' where add: "Add_add (logged ops) d key vec (sl, thrown) = (sl', thrown')"
      by (cases "Add_add (logged ops) d key vec (sl, thrown)")
    from add sl
    have l': "snd sl' = l @ (if valid_element d (key, vec) then [add_call (key, vec)] else [])"
      by (auto simp add: Add_add_logged)
    from Cons.IH [of sl' thrown'] obtain adds where
      "snd (fst (Add_loop (logged ops) d rest (sl', thrown'))) = snd sl' @ adds"
      "list_all is_Add adds"
      by blast
    with l' sl step add show ?thesis
      by (auto simp: add_call_def)
  next
    assume "Add_loop (logged ops) d (p # rest) (sl, thrown) = (fst (sl, thrown), [Napi_Error])"
    then show ?thesis by simp
  qed
qed

lemma Index_Add_batch:
  assumes "length keys_js = length vectors_js"
  shows "Index_Add ops s [JSArray keys_js, JSArray vectors_js] =
     (if native_size ops s + length keys_js < native_capacity ops s
      then Add_loop ops (native_dimensions ops s) (zip keys_js vectors_js) (s, [])
      else if snd (native_reserve ops s (ceil2 (native_size ops s + length keys_js)))
      then Add_loop ops (native_dimensions ops s) (zip keys_js vectors_js)
             (fst (native_reserve ops s (ceil2 (native_size ops s + length keys_js))), [])
      else (fst (native_reserve ops s (ceil2 (native_size ops s + length keys_js))),
            [TypeError ''Out of memory!'']))"
  using assms by (simp add: Index_Add_def Let_def split: prod.splits)

lemma Index_Add_single:
  "Index_Add ops s [JSBigInt k, JSTypedArray v] =
     Add_add ops (native_dimensions ops s) k v
       (if native_size ops s + 1 < native_capacity ops s then s
        else fst (native_reserve ops s (ceil2 (native_size ops s + 1))), [])"
  by (simp add: Index_Add_def Let_def)




lemma Add_add_capacity:
  assumes "\<And>s k v. native_capacity ops (fst (native_add ops s k v)) = native_capacity ops s"
  shows "native_capacity ops (fst (Add_add ops d k v (s, thrown))) = native_capacity ops s"
proof -
  have "fst (Add_add ops d k v (s, thrown)) = s
      \<or> fst (Add_add ops d k v (s, thrown)) = fst (native_add ops s (word_of_int k) v)"
    by (simp add: Add_add_def Uint64Value_def split: prod.splits outcome.splits option.splits)
  with assms show ?thesis by auto
qed

lemma Add_loop_capacity:
  assumes "\<And>s k v. native_capacity ops (fst (native_add ops s k v)) = native_capacity ops s"
  shows "native_capacity ops (fst (Add_loop ops d pairs st)) = native_capacity ops (fst st)"
proof (induction pairs arbitrary: st)
  case Nil
  then show ?case by simp
next
  case (Cons p rest)
  from Add_loop_Cons [of st ops d p rest] show ?case
  proof (elim disjE conjE exE)
    assume "Add_loop ops d (p # rest) st = st"
    then show ?thesis by simp
  next
    fix key vec
    assume step: "Add_loop ops d (p # rest) st = Add_loop ops d rest (Add_add ops d key vec st)"
    have "native_capacity ops (fst (Add_add ops d key vec st)) = native_capacity ops (fst st)"
      using Add_add_capacity [of ops d key vec "fst st" "snd st"] assms by simp
    with Cons.IH [of "Add_add ops d key vec st"] step show ?thesis by simp
  next
    assume "Add_loop ops d (p # rest) st = (fst st, [Napi_Error])"
    then show ?thesis by simp
  qed
qed

subsection \<open>The two searches\<close>

lemma Index_Search_mismatch:
  "length v \<noteq> native_dimensions ops s \<Longrightarrow>
   Index_Search ops s [JSTypedArray v, JSBigInt n] =
     (s, Inl (TypeError ''Wrong number of dimensions''))"
  by (simp add: Index_Search_def)

lemma length_dump_to [simp]: "length (dump_to xs buffer) = length buffer"
  by (simp add: dump_to_def)

lemma take_dump_to:
  "length xs \<le> length buffer \<Longrightarrow> take (length xs) (dump_to xs buffer) = xs"
  by (simp add: dump_to_def)

lemma drop_dump_to:
  "length xs \<le> length buffer \<Longrightarrow>
   drop (length xs) (dump_to xs buffer) = drop (length xs) buffer"
  by (simp add: dump_to_def)

lemma push_zeros_replicate: "push_zeros n xs = xs @ replicate n 0"
  by (induction n arbitrary: xs) (simp_all add: replicate_app_Cons_same)

lemma unat_Uint64Value:
  "0 \<le> n \<Longrightarrow> n < 2 ^ 64 \<Longrightarrow> unat (fst (Uint64Value n)) = nat n"
  by (simp add: Uint64Value_def unat_eq_nat_uint uint_word_of_int take_bit_eq_mod)

lemma Index_Search_returned:
  assumes "length v = native_dimensions ops s" "0 \<le> n" "n < 2 ^ 64"
    and "native_search ops s v (nat n) = (s', Returned result)" "error result = None"
  shows "Index_Search ops s [JSTypedArray v, JSBigInt n] =
     (s', Inr \<lparr>keys = dump_to (map fst (found result)) (replicate (nat n) 0),
               distances = dump_to (map snd (found result)) (replicate (nat n) 0),
               count = length (found result)\<rparr>)"
proof -
  obtain w where w: "Uint64Value n = (w, True)" "unat w = nat n"
    using assms(2,3) unat_Uint64Value [of n] by (simp add: Uint64Value_def)
  show ?thesis
    using assms(1,4,5) by (simp add: Index_Search_def Let_def w)
qed

lemma Index_search_returned:
  assumes "native_search ops s v n = (s', Returned result)" "error result = None"
  shows "Index_search ops s v n =
     (s', Inr \<lparr>keys = take (length (found result))
                   (dump_to (map fst (found result)) (replicate n 0)),
               distances = take (length (found result))
                   (dump_to (map snd (found result)) (replicate n 0))\<rparr>)"
  using assms by (simp add: Index_search_def Let_def push_zeros_replicate)

lemma Index_search_Inr:
  assumes "Index_search ops s v n = (s', Inr m)"
  obtains result where "native_search ops s v n = (s', Returned result)" "error result = None"
  using assms
  by (auto simp add: Index_search_def Let_def split: prod.splits outcome.splits option.splits)

subsection \<open>Saving, loading and viewing\<close>

lemma persist_refused:
  "ctx = [] \<or> \<not> IsString (ctx ! 0) \<Longrightarrow>
   persist member caught s ctx = (s, [TypeError ''Function expects a string path argument''])"
  by (auto simp add: persist_def split: js_value.splits)

lemma persist_string:
  "persist member caught s (JSString path # rest) =
     (case member s (c_str path) of
        (s', Returned result) \<Rightarrow>
          (case error result of Some msg \<Rightarrow> (s', [TypeError msg]) | None \<Rightarrow> (s', []))
      | (s', _) \<Rightarrow> (s', [TypeError caught]))"
  by (simp add: persist_def)

lemma calls_persist:
  "calls (persist (\<lambda>sl p. record_call (c p) (snd sl) (member (fst sl) p)) caught (s, l)
      (JSString path # rest)) = l @ [c (c_str path)]"
  by (simp add: persist_string calls_def record_call_def
      split: prod.splits outcome.splits option.splits)



subsection \<open>Results the engine returns\<close>

lemma Uint64Value_uint: "Uint64Value (uint (w :: key_t)) = (w, True)"
  using uint_lt2p [of w] by (simp add: Uint64Value_def)



lemma Index_Remove_returned:
  "native_remove ops s key = (s', Returned result) \<Longrightarrow>
   Index_Remove ops s [JSBigInt (uint key)] =
     (s', case error result of Some msg \<Rightarrow> Inl (TypeError msg)
          | None \<Rightarrow> Inr (completed result))"
  by (simp add: Index_Remove_def Uint64Value_uint split: option.splits)

lemma Index_remove_returned:
  "native_remove ops s key = (s', Returned result) \<Longrightarrow>
   Index_remove ops s key =
     (s', case error result of Some msg \<Rightarrow> Inl (Raised msg)
          | None \<Rightarrow> Inr (completed result))"
  by (simp add: Index_remove_def split: option.splits)


lemma Index_Contains_returned:
  "native_contains ops s key = (s', Returned b) \<Longrightarrow>
   Index_Contains ops s [JSBigInt (uint key)] = (s', Inr b)"
  by (simp add: Index_Contains_def Uint64Value_uint)

lemma Index_contains_returned:
  "native_contains ops s key = (s', Returned b) \<Longrightarrow>
   Index_contains ops s key = (s', Inr b)"
  by (simp add: Index_contains_def)



subsection \<open>Keys of the reference engine\<close>

lemma length_filter_key:
  "distinct (map fst es) \<Longrightarrow> k \<in> set (map fst es) \<Longrightarrow>
   length (filter (\<lambda>e. fst e \<noteq> k) es) + 1 = length es"
proof (induction es)
  case Nil
  then show ?case by simp
next
  case (Cons e es)
  show ?case
  proof (cases "fst e = k")
    case True
    with Cons.prems have "k \<notin> set (map fst es)" by auto
    then have "filter (\<lambda>e. fst e \<noteq> k) es = es"
      by (auto simp add: filter_id_conv)
    with True show ?thesis by simp
  next
    case False
    with Cons show ?thesis by auto
  qed
qed

lemma r_add_distinct:
  "distinct (map fst (r_entries s)) \<Longrightarrow> distinct (map fst (r_entries (fst (r_add s k v))))"
  by (auto simp add: r_add_def)

lemma r_remove_distinct:
  "distinct (map fst (r_entries s)) \<Longrightarrow> distinct (map fst (r_entries (fst (r_remove s k))))"
  by (auto simp add: r_remove_def distinct_map_filter)

subsection \<open>Names\<close>

lemma name_param_rejected:
  "map_of params name = Some (JSString str) \<Longrightarrow> isl (from_name str) \<Longrightarrow>
   isl (name_param params name d from_name)"
  by (auto simp add: name_param_def split: sum.splits)

lemma Index_Index_rejected:
  assumes "isl (name_param params ''quantization'' f32_k (scalar_kind_from_name ops))
      \<or> isl (name_param params ''metric'' ip_k (metric_from_name ops))"
  shows "isl (Index_Index ops [JSObject params])"
  using assms
  by (auto simp add: Index_Index_def Let_def split: option.splits prod.splits sum.splits)

lemma r_metric_from_name_rejects:
  "isl (r_metric_from_name name) \<longleftrightarrow> name \<notin> set metric_names"
  by (simp add: r_metric_from_name_def metric_names_def)

lemma r_scalar_kind_from_name_rejects:
  "isl (r_scalar_kind_from_name name) \<longleftrightarrow> name \<notin> set quantization_names"
  by (simp add: r_scalar_kind_from_name_def quantization_names_def)

section \<open>The claims\<close>

subsection \<open>C1: capacity is reserved before the insertions\<close>

text \<open>
  C1, as the code has it. The claim that every single-element add reserves when
  \<open>size + 1 \<ge> capacity\<close> does not hold for \<open>Index::add\<close> of the Rust binding, which calls
  the engine's \<open>add\<close> and nothing else. On an empty index of capacity \<open>1\<close> the call below
  inserts its entry, and the only call made on the engine is that \<open>add\<close>.
\<close>

theorem rust_add_without_reserve:
  "native_capacity (reference_engine 8) (fresh 2 1)
     \<le> native_size (reference_engine 8) (fresh 2 1) + 1
   \<and> Index_add (logged (reference_engine 8)) (fresh 2 1, []) 7 [1, 2] =
       (((fresh 2 1)\<lparr>r_entries := [(7, [1, 2])]\<rparr>, [Add 7 [1, 2]]), None)
   \<and> \<not> list_ex is_Reserve
         (calls (Index_add (logged (reference_engine 8)) (fresh 2 1, []) 7 [1, 2]))"
  by (simp add: Index_add_def record_call_def calls_def fresh_def r_add_def ok_def)

text \<open>
  C1, amended. In \<open>Index::Add\<close> of the JavaScript binding, a single add with
  \<open>size + 1 \<ge> capacity\<close> calls the engine's \<open>reserve\<close> with \<open>ceil2 (size + 1)\<close> first and then,
  if the pair passes the checks, the engine's \<open>add\<close>. A batch add of \<open>N\<close> pairs with
  \<open>size + N \<ge> capacity\<close> calls \<open>reserve\<close> with \<open>ceil2 (size + N)\<close> once, first, and every later
  call is an \<open>add\<close>. When that reservation succeeds and the engine then has the capacity
  asked for, and the engine's \<open>add\<close> leaves the capacity alone, the capacity after the
  batch is at least \<open>N\<close> and a power of two. In the Rust binding reserving is left to the
  caller: \<open>Index::reserve\<close> calls the engine's \<open>reserve\<close> once, with the capacity it was
  given, and \<open>Index::add\<close> calls the engine's \<open>add\<close> only.
\<close>

theorem capacity_reserved_before_add:
  "(native_capacity ops s \<le> native_size ops s + 1 \<longrightarrow>
      calls (Index_Add (logged ops) (s, []) [JSBigInt k, JSTypedArray v]) =
        Reserve (ceil2 (native_size ops s + 1))
          # (if valid_element (native_dimensions ops s) (k, v) then [add_call (k, v)] else []))
   \<and> (length keys_js = length vectors_js
        \<and> native_capacity ops s \<le> native_size ops s + length keys_js \<longrightarrow>
      (\<exists>adds.
         calls (Index_Add (logged ops) (s, []) [JSArray keys_js, JSArray vectors_js]) =
           Reserve (ceil2 (native_size ops s + length keys_js)) # adds
         \<and> list_all is_Add adds))
   \<and> (length keys_js = length vectors_js
        \<and> native_capacity ops s \<le> native_size ops s + length keys_js
        \<and> native_reserve ops s (ceil2 (native_size ops s + length keys_js)) = (s', True)
        \<and> native_capacity ops s' = ceil2 (native_size ops s + length keys_js)
        \<and> (\<forall>s k v. native_capacity ops (fst (native_add ops s k v)) = native_capacity ops s)
      \<longrightarrow>
      length keys_js
        \<le> GetCapacity ops (fst (Index_Add ops s [JSArray keys_js, JSArray vectors_js]))
      \<and> power_of_two
          (GetCapacity ops (fst (Index_Add ops s [JSArray keys_js, JSArray vectors_js]))))
   \<and> Index_reserve (logged ops) (s, l) n = (fst (native_reserve ops s n), l @ [Reserve n])
   \<and> calls (Index_add (logged ops) (s, l) key vec) = l @ [Add key vec]"
proof (intro conjI impI)
  assume "native_capacity ops s \<le> native_size ops s + 1"
  then show "calls (Index_Add (logged ops) (s, []) [JSBigInt k, JSTypedArray v]) =
        Reserve (ceil2 (native_size ops s + 1))
          # (if valid_element (native_dimensions ops s) (k, v) then [add_call (k, v)] else [])"
    by (simp add: Index_Add_single calls_def record_call_def Add_add_logged)
next
  assume h: "length keys_js = length vectors_js
        \<and> native_capacity ops s \<le> native_size ops s + length keys_js"
  let ?n = "ceil2 (native_size ops s + length keys_js)"
  let ?s' = "(fst (native_reserve ops s ?n), [Reserve ?n])"
  obtain adds where adds:
    "snd (fst (Add_loop (logged ops) (native_dimensions ops s) (zip keys_js vectors_js)
        (?s', []))) = snd ?s' @ adds" "list_all is_Add adds"
    using Add_loop_calls [of ops "native_dimensions ops s" "zip keys_js vectors_js" ?s' "[]"]
    by blast
  have "calls (Index_Add (logged ops) (s, []) [JSArray keys_js, JSArray vectors_js]) =
      Reserve ?n # (if snd (native_reserve ops s ?n) then adds else [])"
    using h adds(1) by (simp add: Index_Add_batch calls_def record_call_def)
  with adds(2) show "\<exists>adds.
         calls (Index_Add (logged ops) (s, []) [JSArray keys_js, JSArray vectors_js]) =
           Reserve (ceil2 (native_size ops s + length keys_js)) # adds
         \<and> list_all is_Add adds"
    by (cases "snd (native_reserve ops s ?n)") auto
next
  assume h: "length keys_js = length vectors_js
        \<and> native_capacity ops s \<le> native_size ops s + length keys_js
        \<and> native_reserve ops s (ceil2 (native_size ops s + length keys_js)) = (s', True)
        \<and> native_capacity ops s' = ceil2 (native_size ops s + length keys_js)
        \<and> (\<forall>s k v. native_capacity ops (fst (native_add ops s k v)) = native_capacity ops s)"
  let ?n = "ceil2 (native_size ops s + length keys_js)"
  from h have len: "length keys_js = length vectors_js"
    and res: "native_reserve ops s ?n = (s', True)"
    and full: "\<not> native_size ops s + length keys_js < native_capacity ops s"
    by auto
  have run: "Index_Add ops s [JSArray keys_js, JSArray vectors_js] =
      Add_loop ops (native_dimensions ops s) (zip keys_js vectors_js) (s', [])"
    by (simp only: Index_Add_batch [OF len] full res if_False if_True fst_conv snd_conv)
  have "native_capacity ops (fst (Index_Add ops s [JSArray keys_js, JSArray vectors_js])) = ?n"
    using h by (simp add: run Add_loop_capacity)
  moreover have "length keys_js \<le> ?n"
    using ceil2_ge [of "native_size ops s + length keys_js"] by simp
  ultimately show
    "length keys_js
        \<le> GetCapacity ops (fst (Index_Add ops s [JSArray keys_js, JSArray vectors_js]))"
    "power_of_two
          (GetCapacity ops (fst (Index_Add ops s [JSArray keys_js, JSArray vectors_js])))"
    by (simp_all add: GetCapacity_def ceil2_power)
next
  show "Index_reserve (logged ops) (s, l) n = (fst (native_reserve ops s n), l @ [Reserve n])"
    by (simp add: Index_reserve_def record_call_def)
next
  show "calls (Index_add (logged ops) (s, l) key vec) = l @ [Add key vec]"
    by (simp add: Index_add_def record_call_def calls_def
        split: prod.splits outcome.splits option.splits)
qed

theorem capacity_reserved_before_add_witness:
  "GetCapacity (reference_engine 8)
     (fst (Index_Add (reference_engine 8) (fresh 2 0)
        [JSArray [JSBigInt 1, JSBigInt 2, JSBigInt 3],
         JSArray [JSTypedArray [0, 0], JSTypedArray [0, 1], JSTypedArray [1, 0]]])) = 4
   \<and> power_of_two
     (GetCapacity (reference_engine 8)
       (fst (Index_Add (reference_engine 8) (fresh 2 0)
        [JSArray [JSBigInt 1, JSBigInt 2, JSBigInt 3],
         JSArray [JSTypedArray [0, 0], JSTypedArray [0, 1], JSTypedArray [1, 0]]])))
   \<and> calls (Index_add (logged (reference_engine 8)) (fresh 2 1, []) 7 [1, 2]) = [Add 7 [1, 2]]"
proof -
  let ?ops = "reference_engine 8"
  let ?ctx = "[JSArray [JSBigInt 1, JSBigInt 2, JSBigInt 3],
         JSArray [JSTypedArray [0, 0], JSTypedArray [0, 1], JSTypedArray [1, 0]]]"
  have hyp: "length [JSBigInt 1, JSBigInt 2, JSBigInt 3]
        = length [JSTypedArray [0, 0], JSTypedArray [0, 1], JSTypedArray [1, 0]]
      \<and> native_capacity ?ops (fresh 2 0) \<le> native_size ?ops (fresh 2 0) + length [JSBigInt 1, JSBigInt 2, JSBigInt 3]
      \<and> native_reserve ?ops (fresh 2 0) (ceil2 (native_size ?ops (fresh 2 0) + length [JSBigInt 1, JSBigInt 2, JSBigInt 3])) = (fresh 2 4, True)
      \<and> native_capacity ?ops (fresh 2 4) = ceil2 (native_size ?ops (fresh 2 0) + length [JSBigInt 1, JSBigInt 2, JSBigInt 3])
      \<and> (\<forall>s k v. native_capacity ?ops (fst (native_add ?ops s k v)) = native_capacity ?ops s)"
    by (simp add: fresh_def r_reserve_def ceil2_3 r_add_capacity)
  have two: "power_of_two (GetCapacity ?ops (fst (Index_Add ?ops (fresh 2 0) ?ctx)))"
    using capacity_reserved_before_add [of ?ops "fresh 2 0" _ _ "[JSBigInt 1, JSBigInt 2, JSBigInt 3]"
      "[JSTypedArray [0, 0], JSTypedArray [0, 1], JSTypedArray [1, 0]]" "fresh 2 4"] hyp
    by blast
  have "GetCapacity ?ops (fst (Index_Add ?ops (fresh 2 0) ?ctx)) = 4"
    by (simp add: GetCapacity_def Index_Add_def Let_def fresh_def r_reserve_def ceil2_3
        Add_add_def Uint64Value_def r_add_def ok_def failed_def)
  moreover have "calls (Index_add (logged ?ops) (fresh 2 1, []) 7 [1, 2]) = [] @ [Add 7 [1, 2]]"
    using capacity_reserved_before_add [of ?ops "fresh 2 1" _ _ _ _ _ "[]" _ 7 "[1, 2]"]
    by blast
  ultimately show ?thesis using two by simp
qed

subsection \<open>C2: the buffers a search returns\<close>

text \<open>
  C2, as the code has it. The claim that both buffers are cut to \<open>count\<close> does not hold for
  \<open>Index::Search\<close> of the JavaScript binding: with one entry in the index and three matches
  wanted, the buffers returned have three places and \<open>count\<close> is \<open>1\<close>.
\<close>

theorem search_keeps_buffer_length:
  "Index_Search (reference_engine 8) ((fresh 2 4)\<lparr>r_entries := [(5, [1, 2])]\<rparr>)
       [JSTypedArray [1, 2], JSBigInt 3] =
     ((fresh 2 4)\<lparr>r_entries := [(5, [1, 2])]\<rparr>,
      Inr \<lparr>keys = [5, 0, 0], distances = [0, 0, 0], count = 1\<rparr>)
   \<and> length (keys \<lparr>keys = [5, 0, 0 :: key_t], distances = [0, 0, 0 :: f32], count = 1 :: nat\<rparr>)
       \<noteq> count \<lparr>keys = [5, 0, 0 :: key_t], distances = [0, 0, 0 :: f32], count = 1 :: nat\<rparr>"
proof -
  let ?s = "(fresh 2 4)\<lparr>r_entries := [(5, [1, 2])]\<rparr>"
  have engine: "native_search (reference_engine 8) ?s [1, 2] (nat 3) =
      (?s, Returned \<lparr>error = None, found = [(5, 0)]\<rparr>)"
    by (simp add: fresh_def r_search_def)
  have "Index_Search (reference_engine 8) ?s [JSTypedArray [1, 2], JSBigInt 3] =
     (?s, Inr \<lparr>keys = dump_to [5] (replicate (nat 3) 0),
               distances = dump_to [0] (replicate (nat 3) 0), count = 1\<rparr>)"
    using Index_Search_returned [OF _ _ _ engine] by (simp add: fresh_def)
  then show ?thesis
    by (simp add: dump_to_def numeral_3_eq_3)
qed

text \<open>
  C2, amended. When the engine returns \<open>count\<close> matches, at most the \<open>k\<close> wanted, without an
  error, \<open>Index::Search\<close> of the JavaScript binding returns both buffers with their \<open>k\<close>
  places: the first \<open>count\<close> hold the engine's matches, the others zeros, and the field
  \<open>count\<close> holds \<open>count\<close>. \<open>Index::search\<close> of the Rust binding returns both vectors cut to
  \<open>count\<close>; its \<open>Matches\<close> has no field \<open>count\<close>.
\<close>

theorem search_result_buffers:
  "(length v = native_dimensions ops s \<and> 0 \<le> n \<and> n < 2 ^ 64
      \<and> native_search ops s v (nat n) = (s', Returned result) \<and> error result = None
      \<and> length (found result) \<le> nat n \<longrightarrow>
      (\<exists>r. Index_Search ops s [JSTypedArray v, JSBigInt n] = (s', Inr r)
         \<and> count r = length (found result)
         \<and> length (keys r) = nat n \<and> length (distances r) = nat n
         \<and> take (count r) (keys r) = map fst (found result)
         \<and> take (count r) (distances r) = map snd (found result)
         \<and> drop (count r) (keys r) = replicate (nat n - count r) 0
         \<and> drop (count r) (distances r) = replicate (nat n - count r) 0))
   \<and> (native_search ops s v n0 = (s', Returned result) \<and> error result = None
      \<and> length (found result) \<le> n0 \<longrightarrow>
      Index_search ops s v n0 =
        (s', Inr \<lparr>keys = map fst (found result), distances = map snd (found result)\<rparr>))"
proof (intro conjI impI)
  assume h: "length v = native_dimensions ops s \<and> 0 \<le> n \<and> n < 2 ^ 64
      \<and> native_search ops s v (nat n) = (s', Returned result) \<and> error result = None
      \<and> length (found result) \<le> nat n"
  let ?r = "\<lparr>keys = dump_to (map fst (found result)) (replicate (nat n) 0),
             distances = dump_to (map snd (found result)) (replicate (nat n) 0),
             count = length (found result)\<rparr>"
  have run: "Index_Search ops s [JSTypedArray v, JSBigInt n] = (s', Inr ?r)"
    using h by (simp add: Index_Search_returned)
  have "take (count ?r) (keys ?r) = map fst (found result)"
    "take (count ?r) (distances ?r) = map snd (found result)"
    using h take_dump_to [of "map fst (found result)" "replicate (nat n) 0"]
      take_dump_to [of "map snd (found result)" "replicate (nat n) 0"] by simp_all
  moreover have "drop (count ?r) (keys ?r) = replicate (nat n - count ?r) 0"
    "drop (count ?r) (distances ?r) = replicate (nat n - count ?r) 0"
    using h drop_dump_to [of "map fst (found result)" "replicate (nat n) 0"]
      drop_dump_to [of "map snd (found result)" "replicate (nat n) 0"] by simp_all
  moreover have "count ?r = length (found result)" "length (keys ?r) = nat n"
    "length (distances ?r) = nat n"
    by simp_all
  ultimately show "\<exists>r. Index_Search ops s [JSTypedArray v, JSBigInt n] = (s', Inr r)
         \<and> count r = length (found result)
         \<and> length (keys r) = nat n \<and> length (distances r) = nat n
         \<and> take (count r) (keys r) = map fst (found result)
         \<and> take (count r) (distances r) = map snd (found result)
         \<and> drop (count r) (keys r) = replicate (nat n - count r) 0
         \<and> drop (count r) (distances r) = replicate (nat n - count r) 0"
    using run by blast
next
  assume h: "native_search ops s v n0 = (s', Returned result) \<and> error result = None
      \<and> length (found result) \<le> n0"
  then show "Index_search ops s v n0 =
        (s', Inr \<lparr>keys = map fst (found result), distances = map snd (found result)\<rparr>)"
    using take_dump_to [of "map fst (found result)" "replicate n0 0"]
      take_dump_to [of "map snd (found result)" "replicate n0 0"]
    by (simp add: Index_search_returned)
qed

theorem search_result_buffers_witness:
  "length [1, 2 :: f32] = native_dimensions (reference_engine 8) one_entry
   \<and> native_search (reference_engine 8) one_entry [1, 2] (nat 3) =
       (one_entry, Returned \<lparr>error = None, found = [(5, 0)]\<rparr>)
   \<and> (\<exists>r. Index_Search (reference_engine 8) one_entry [JSTypedArray [1, 2], JSBigInt 3] =
           (one_entry, Inr r)
        \<and> count r = 1 \<and> length (keys r) = 3 \<and> length (distances r) = 3
        \<and> take 1 (keys r) = [5] \<and> drop 1 (keys r) = [0, 0])
   \<and> Index_search (reference_engine 8) one_entry [1, 2] 3 =
       (one_entry, Inr \<lparr>keys = [5], distances = [0]\<rparr>)"
proof -
  let ?ops = "reference_engine 8"
  let ?result = "\<lparr>error = None, found = [(5 :: key_t, 0 :: f32)]\<rparr>"
  have run: "native_search ?ops one_entry [1, 2] (nat 3) = (one_entry, Returned ?result)"
    "native_search ?ops one_entry [1, 2] 3 = (one_entry, Returned ?result)"
    by (simp_all add: one_entry_def fresh_def r_search_def numeral_3_eq_3)
  have hyp: "length [1, 2 :: f32] = native_dimensions ?ops one_entry \<and> (0 :: int) \<le> 3
      \<and> (3 :: int) < 2 ^ 64
      \<and> native_search ?ops one_entry [1, 2] (nat 3) = (one_entry, Returned ?result)
      \<and> error ?result = None \<and> length (found ?result) \<le> nat 3"
    "native_search ?ops one_entry [1, 2] 3 = (one_entry, Returned ?result)
      \<and> error ?result = None \<and> length (found ?result) \<le> 3"
    using run by (simp_all add: one_entry_def fresh_def)
  note inst = search_result_buffers [of "[1, 2]" ?ops one_entry 3 one_entry ?result 3]
  from inst hyp have
    "\<exists>r. Index_Search ?ops one_entry [JSTypedArray [1, 2], JSBigInt 3] = (one_entry, Inr r)
         \<and> count r = length (found ?result)
         \<and> length (keys r) = nat 3 \<and> length (distances r) = nat 3
         \<and> take (count r) (keys r) = map fst (found ?result)
         \<and> take (count r) (distances r) = map snd (found ?result)
         \<and> drop (count r) (keys r) = replicate (nat 3 - count r) 0
         \<and> drop (count r) (distances r) = replicate (nat 3 - count r) 0"
    by blast
  then obtain r where r: "Index_Search ?ops one_entry [JSTypedArray [1, 2], JSBigInt 3] = (one_entry, Inr r)"
    "count r = 1" "length (keys r) = 3" "length (distances r) = 3"
    "take 1 (keys r) = [5]" "drop 1 (keys r) = replicate 2 0"
    by auto
  have rust: "Index_search ?ops one_entry [1, 2] 3 =
       (one_entry, Inr \<lparr>keys = [5], distances = [0]\<rparr>)"
    using inst hyp by simp
  from r have "\<exists>r. Index_Search ?ops one_entry [JSTypedArray [1, 2], JSBigInt 3] =
           (one_entry, Inr r)
        \<and> count r = 1 \<and> length (keys r) = 3 \<and> length (distances r) = 3
        \<and> take 1 (keys r) = [5] \<and> drop 1 (keys r) = [0, 0]"
    by (simp add: numeral_2_eq_2)
  with rust run hyp show ?thesis by simp
qed

subsection \<open>C3: a reservation that fails\<close>

text \<open>
  C3. When the reservation of a batch add fails, \<open>Index::Add\<close> hands the host the type
  error \<open>Out of memory!\<close> and calls no member of the engine after \<open>reserve\<close>: nothing is
  inserted, and the engine is as the failed \<open>reserve\<close> left it. A single add does not look
  at what \<open>reserve\<close> returns: after a reservation that failed it goes on as after one that
  succeeded, and calls the engine's \<open>add\<close> for a pair that passes the checks. The witness
  is such a call: the reservation fails, no error reaches the host, and the entry is
  inserted.
\<close>

theorem failed_reservation:
  "(length keys_js = length vectors_js
      \<and> native_capacity ops s \<le> native_size ops s + length keys_js
      \<and> \<not> snd (native_reserve ops s (ceil2 (native_size ops s + length keys_js))) \<longrightarrow>
      Index_Add (logged ops) (s, []) [JSArray keys_js, JSArray vectors_js] =
        ((fst (native_reserve ops s (ceil2 (native_size ops s + length keys_js))),
          [Reserve (ceil2 (native_size ops s + length keys_js))]),
         [TypeError ''Out of memory!'']))
   \<and> (native_capacity ops s \<le> native_size ops s + 1
      \<and> \<not> snd (native_reserve ops s (ceil2 (native_size ops s + 1))) \<longrightarrow>
      Index_Add ops s [JSBigInt k, JSTypedArray v] =
        Add_add ops (native_dimensions ops s) k v
          (fst (native_reserve ops s (ceil2 (native_size ops s + 1))), [])
      \<and> calls (Index_Add (logged ops) (s, []) [JSBigInt k, JSTypedArray v]) =
          Reserve (ceil2 (native_size ops s + 1))
            # (if valid_element (native_dimensions ops s) (k, v) then [add_call (k, v)]
               else []))"
proof (intro conjI impI)
  assume h: "length keys_js = length vectors_js
      \<and> native_capacity ops s \<le> native_size ops s + length keys_js
      \<and> \<not> snd (native_reserve ops s (ceil2 (native_size ops s + length keys_js)))"
  then have len: "length keys_js = length vectors_js"
    and full: "\<not> native_size ops s + length keys_js < native_capacity ops s"
    and fails: "\<not> snd (native_reserve ops s (ceil2 (native_size ops s + length keys_js)))"
    by auto
  from full fails show "Index_Add (logged ops) (s, []) [JSArray keys_js, JSArray vectors_js] =
        ((fst (native_reserve ops s (ceil2 (native_size ops s + length keys_js))),
          [Reserve (ceil2 (native_size ops s + length keys_js))]),
         [TypeError ''Out of memory!''])"
    unfolding Index_Add_batch [OF len] by (simp add: record_call_def)
next
  assume h: "native_capacity ops s \<le> native_size ops s + 1
      \<and> \<not> snd (native_reserve ops s (ceil2 (native_size ops s + 1)))"
  then show "Index_Add ops s [JSBigInt k, JSTypedArray v] =
        Add_add ops (native_dimensions ops s) k v
          (fst (native_reserve ops s (ceil2 (native_size ops s + 1))), [])"
    by (simp add: Index_Add_single)
  from h show "calls (Index_Add (logged ops) (s, []) [JSBigInt k, JSTypedArray v]) =
          Reserve (ceil2 (native_size ops s + 1))
            # (if valid_element (native_dimensions ops s) (k, v) then [add_call (k, v)]
               else [])"
    by (simp add: Index_Add_single calls_def record_call_def Add_add_logged)
qed

theorem failed_reservation_witness:
  "native_capacity (reference_engine 3) ((fresh 2 3)\<lparr>r_entries := [(1, [0, 0]), (2, [0, 1])]\<rparr>)
     \<le> native_size (reference_engine 3) ((fresh 2 3)\<lparr>r_entries := [(1, [0, 0]), (2, [0, 1])]\<rparr>) + 1
   \<and> \<not> snd (native_reserve (reference_engine 3)
           ((fresh 2 3)\<lparr>r_entries := [(1, [0, 0]), (2, [0, 1])]\<rparr>) (ceil2 3))
   \<and> Index_Add (reference_engine 3) ((fresh 2 3)\<lparr>r_entries := [(1, [0, 0]), (2, [0, 1])]\<rparr>)
         [JSBigInt 7, JSTypedArray [1, 1]] =
       ((fresh 2 3)\<lparr>r_entries := [(1, [0, 0]), (2, [0, 1]), (7, [1, 1])]\<rparr>, [])
   \<and> calls (Index_Add (logged (reference_engine 3))
         ((fresh 2 3)\<lparr>r_entries := [(1, [0, 0]), (2, [0, 1])]\<rparr>, [])
         [JSBigInt 7, JSTypedArray [1, 1]]) = [Reserve 4, Add 7 [1, 1]]"
proof -
  let ?ops = "reference_engine 3"
  let ?s = "(fresh 2 3)\<lparr>r_entries := [(1, [0, 0]), (2, [0, 1])]\<rparr>"
  have hyp: "native_capacity ?ops ?s \<le> native_size ?ops ?s + 1
      \<and> \<not> snd (native_reserve ?ops ?s (ceil2 (native_size ?ops ?s + 1)))"
    by (simp add: fresh_def r_reserve_def ceil2_3)
  have "Index_Add ?ops ?s [JSBigInt 7, JSTypedArray [1, 1]] =
        Add_add ?ops (native_dimensions ?ops ?s) 7 [1, 1]
          (fst (native_reserve ?ops ?s (ceil2 (native_size ?ops ?s + 1))), [])"
    and "calls (Index_Add (logged ?ops) (?s, []) [JSBigInt 7, JSTypedArray [1, 1]]) =
          Reserve (ceil2 (native_size ?ops ?s + 1))
            # (if valid_element (native_dimensions ?ops ?s) (7, [1, 1]) then [add_call (7, [1, 1])]
               else [])"
    using failed_reservation [of _ _ ?ops ?s 7 "[1, 1]"] hyp by blast+
  then show ?thesis
    by (simp add: fresh_def r_reserve_def ceil2_3 valid_element_def add_call_def
        Add_add_def Uint64Value_def r_add_def ok_def failed_def)
qed

subsection \<open>C4: a vector of the wrong length\<close>

text \<open>
  C4, as the code has it. The claim that a single add of a vector of the wrong length
  fails without a call of the engine does not hold: \<open>Index::Add\<close> reserves before the
  lambda checks the length. On an empty index of capacity \<open>0\<close> the call below reports the
  wrong length after it has called \<open>reserve\<close>, and the capacity has changed.
\<close>

theorem add_reserves_before_dimension_check:
  "length [1, 2, 3 :: f32] \<noteq> native_dimensions (reference_engine 8) (fresh 2 0)
   \<and> Index_Add (logged (reference_engine 8)) (fresh 2 0, [])
         [JSBigInt 7, JSTypedArray [1, 2, 3]] =
       ((fresh 2 1, [Reserve 1]), [TypeError ''Wrong number of dimensions''])
   \<and> calls (Index_Add (logged (reference_engine 8)) (fresh 2 0, [])
         [JSBigInt 7, JSTypedArray [1, 2, 3]]) \<noteq> []
   \<and> GetCapacity (reference_engine 8) (fresh 2 0) = 0
   \<and> GetCapacity (reference_engine 8)
        (fst (Index_Add (reference_engine 8) (fresh 2 0)
           [JSBigInt 7, JSTypedArray [1, 2, 3]])) = 1"
  by (simp add: Index_Add_single calls_def record_call_def Add_add_def Uint64Value_def
      fresh_def r_reserve_def ceil2_1 GetCapacity_def)

text \<open>
  C4, amended. \<open>Index::Search\<close> on a typed array of the wrong length and a BigInt hands
  the host \<open>Wrong number of dimensions\<close>, calls no member of the engine and leaves it as it
  was. The lambda \<open>add\<close>, on a key that is an unsigned 64-bit value and a vector of the
  wrong length, hands the host the same error and does not call the engine's \<open>add\<close>. A
  single \<open>Index::Add\<close> of such a pair therefore calls nothing but the \<open>reserve\<close> that comes
  before the check when \<open>size + 1 \<ge> capacity\<close>, and \<open>size()\<close> is unchanged whenever that
  \<open>reserve\<close> leaves the size unchanged.
\<close>

theorem dimension_mismatch:
  "(length v \<noteq> native_dimensions ops s \<longrightarrow>
      Index_Search (logged ops) (s, []) [JSTypedArray v, JSBigInt n] =
        ((s, []), Inl (TypeError ''Wrong number of dimensions'')))
   \<and> (length v \<noteq> d \<and> 0 \<le> k \<and> k < 2 ^ 64 \<longrightarrow>
      Add_add (logged ops) d k v ((s, l), thrown) =
        ((s, l), thrown @ [TypeError ''Wrong number of dimensions'']))
   \<and> (length v \<noteq> native_dimensions ops s \<and> 0 \<le> k \<and> k < 2 ^ 64 \<longrightarrow>
      Index_Add (logged ops) (s, []) [JSBigInt k, JSTypedArray v] =
        (if native_size ops s + 1 < native_capacity ops s then (s, [])
         else (fst (native_reserve ops s (ceil2 (native_size ops s + 1))),
               [Reserve (ceil2 (native_size ops s + 1))]),
         [TypeError ''Wrong number of dimensions'']))
   \<and> (length v \<noteq> native_dimensions ops s \<and> 0 \<le> k \<and> k < 2 ^ 64
        \<and> native_size ops (fst (native_reserve ops s (ceil2 (native_size ops s + 1))))
            = native_size ops s \<longrightarrow>
      GetSize ops (fst (Index_Add ops s [JSBigInt k, JSTypedArray v])) = GetSize ops s)"
proof (intro conjI impI)
  assume "length v \<noteq> native_dimensions ops s"
  then show "Index_Search (logged ops) (s, []) [JSTypedArray v, JSBigInt n] =
        ((s, []), Inl (TypeError ''Wrong number of dimensions''))"
    by (simp add: Index_Search_mismatch)
next
  assume "length v \<noteq> d \<and> 0 \<le> k \<and> k < 2 ^ 64"
  then show "Add_add (logged ops) d k v ((s, l), thrown) =
        ((s, l), thrown @ [TypeError ''Wrong number of dimensions''])"
    by (simp add: Add_add_invalid valid_element_def)
next
  assume h: "length v \<noteq> native_dimensions ops s \<and> 0 \<le> k \<and> k < 2 ^ 64"
  then have "\<not> valid_element (native_dimensions ops s) (k, v)"
    by (simp add: valid_element_def)
  with h show "Index_Add (logged ops) (s, []) [JSBigInt k, JSTypedArray v] =
        (if native_size ops s + 1 < native_capacity ops s then (s, [])
         else (fst (native_reserve ops s (ceil2 (native_size ops s + 1))),
               [Reserve (ceil2 (native_size ops s + 1))]),
         [TypeError ''Wrong number of dimensions''])"
    by (simp add: Index_Add_single Add_add_invalid record_call_def)
next
  assume h: "length v \<noteq> native_dimensions ops s \<and> 0 \<le> k \<and> k < 2 ^ 64
        \<and> native_size ops (fst (native_reserve ops s (ceil2 (native_size ops s + 1))))
            = native_size ops s"
  then have "\<not> valid_element (native_dimensions ops s) (k, v)"
    by (simp add: valid_element_def)
  with h show "GetSize ops (fst (Index_Add ops s [JSBigInt k, JSTypedArray v])) = GetSize ops s"
    by (simp add: Index_Add_single Add_add_invalid GetSize_def)
qed

theorem dimension_mismatch_witness:
  "length [1, 2, 3 :: f32] \<noteq> native_dimensions (reference_engine 8) (fresh 2 0)
   \<and> (0 :: int) \<le> 7 \<and> (7 :: int) < 2 ^ 64
   \<and> Index_Search (logged (reference_engine 8)) (fresh 2 0, [])
         [JSTypedArray [1, 2, 3], JSBigInt 5] =
       ((fresh 2 0, []), Inl (TypeError ''Wrong number of dimensions''))
   \<and> Index_Add (logged (reference_engine 8)) (fresh 2 4, [])
         [JSBigInt 7, JSTypedArray [1, 2, 3]] =
       ((fresh 2 4, []), [TypeError ''Wrong number of dimensions''])
   \<and> GetSize (reference_engine 8)
        (fst (Index_Add (reference_engine 8) (fresh 2 0) [JSBigInt 7, JSTypedArray [1, 2, 3]]))
       = GetSize (reference_engine 8) (fresh 2 0)"
proof -
  let ?ops = "reference_engine 8"
  have hyp: "length [1, 2, 3 :: f32] \<noteq> native_dimensions ?ops (fresh 2 0)"
    "length [1, 2, 3 :: f32] \<noteq> native_dimensions ?ops (fresh 2 4)"
    "(0 :: int) \<le> 7 \<and> (7 :: int) < 2 ^ 64"
    "native_size ?ops (fst (native_reserve ?ops (fresh 2 0)
        (ceil2 (native_size ?ops (fresh 2 0) + 1)))) = native_size ?ops (fresh 2 0)"
    by (simp_all add: fresh_def r_reserve_def)
  note thm0 = dimension_mismatch [of "[1, 2, 3]" ?ops "fresh 2 0" 5 2 7 "[]" "[]"]
  note thm4 = dimension_mismatch [of "[1, 2, 3]" ?ops "fresh 2 4" 5 2 7 "[]" "[]"]
  have "Index_Search (logged ?ops) (fresh 2 0, []) [JSTypedArray [1, 2, 3], JSBigInt 5] =
       ((fresh 2 0, []), Inl (TypeError ''Wrong number of dimensions''))"
    using thm0 hyp by blast
  moreover have "Index_Add (logged ?ops) (fresh 2 4, []) [JSBigInt 7, JSTypedArray [1, 2, 3]] =
       ((fresh 2 4, []), [TypeError ''Wrong number of dimensions''])"
    using thm4 hyp by (simp add: fresh_def)
  moreover have "GetSize ?ops (fst (Index_Add ?ops (fresh 2 0) [JSBigInt 7, JSTypedArray [1, 2, 3]]))
       = GetSize ?ops (fresh 2 0)"
    using thm0 hyp by blast
  ultimately show ?thesis using hyp by simp
qed

subsection \<open>C5: the elements of a batch are checked one by one\<close>




subsection \<open>C6: names that are not recognized\<close>

text \<open>
  C6, as the code has it. The claim that every construction with a metric outside the
  eight recognized ones fails does not hold for \<open>new_index\<close> of the Rust binding, which
  takes kinds, not names, and has no failure of its own: a kind outside the listed ones
  takes the \<open>default\<close> branch of \<open>rust_to_cpp_metric\<close>, and the index is made with the
  engine's unknown kind.
\<close>

theorem new_index_unlisted_kind:
  "rust_to_cpp_metric MetricKind_unlisted = unknown_k
   \<and> new_index (reference_engine 8)
        \<lparr>dimensions = 2, metric = MetricKind_unlisted, quantization = ScalarKind_F32,
         connectivity = 16, expansion_add = 128, expansion_search = 64\<rparr> = fresh 2 0"
  by (simp add: new_index_def fresh_def)

text \<open>
  C6, amended. The constructor of the JavaScript binding fails, and produces no handle,
  whenever the options hold a metric name or a quantization name that the engine's
  parser rejects; by the spec's tables (the parsers of the reference engine) these are
  the names outside the eight metric names and the five quantization names.
  \<open>new_index\<close> of the Rust binding maps a kind to the engine's unknown kind exactly when it
  is none of the listed kinds, and returns the index the engine makes in every case.
\<close>

theorem unrecognized_names:
  "((map_of params ''metric'' = Some (JSString m) \<and> isl (metric_from_name ops m))
      \<or> (map_of params ''quantization'' = Some (JSString q)
          \<and> isl (scalar_kind_from_name ops q)) \<longrightarrow>
      isl (Index_Index ops [JSObject params]))
   \<and> (isl (r_metric_from_name name) \<longleftrightarrow> name \<notin> set metric_names)
   \<and> (isl (r_scalar_kind_from_name name) \<longleftrightarrow> name \<notin> set quantization_names)
   \<and> (rust_to_cpp_metric kind = unknown_k \<longleftrightarrow> kind = MetricKind_unlisted)
   \<and> (rust_to_cpp_scalar scalar = scalar_unknown_k \<longleftrightarrow> scalar = ScalarKind_unlisted)
   \<and> new_index ops options =
       native_make ops (dimensions options) (rust_to_cpp_metric (metric options))
         (rust_to_cpp_scalar (quantization options)) (connectivity options)
         (expansion_add options) (expansion_search options)"
proof (intro conjI impI)
  assume "(map_of params ''metric'' = Some (JSString m) \<and> isl (metric_from_name ops m))
      \<or> (map_of params ''quantization'' = Some (JSString q)
          \<and> isl (scalar_kind_from_name ops q))"
  then have "isl (name_param params ''quantization'' f32_k (scalar_kind_from_name ops))
      \<or> isl (name_param params ''metric'' ip_k (metric_from_name ops))"
    using name_param_rejected [of params "''metric''" m "metric_from_name ops" ip_k]
      name_param_rejected [of params "''quantization''" q "scalar_kind_from_name ops" f32_k]
    by blast
  then show "isl (Index_Index ops [JSObject params])"
    by (rule Index_Index_rejected)
next
  show "isl (r_metric_from_name name) \<longleftrightarrow> name \<notin> set metric_names"
    by (rule r_metric_from_name_rejects)
  show "isl (r_scalar_kind_from_name name) \<longleftrightarrow> name \<notin> set quantization_names"
    by (rule r_scalar_kind_from_name_rejects)
  show "rust_to_cpp_metric kind = unknown_k \<longleftrightarrow> kind = MetricKind_unlisted"
    by (cases kind) simp_all
  show "rust_to_cpp_scalar scalar = scalar_unknown_k \<longleftrightarrow> scalar = ScalarKind_unlisted"
    by (cases scalar) simp_all
  show "new_index ops options =
       native_make ops (dimensions options) (rust_to_cpp_metric (metric options))
         (rust_to_cpp_scalar (quantization options)) (connectivity options)
         (expansion_add options) (expansion_search options)"
    by (simp add: new_index_def)
qed

theorem unrecognized_names_witness:
  "map_of [(''dimensions'', JSBigInt 3), (''metric'', JSString ''cosine'')] ''metric''
     = Some (JSString ''cosine'')
   \<and> ''cosine'' \<notin> set metric_names
   \<and> isl (metric_from_name (reference_engine 8) ''cosine'')
   \<and> isl (Index_Index (reference_engine 8)
        [JSObject [(''dimensions'', JSBigInt 3), (''metric'', JSString ''cosine'')]])
   \<and> Index_Index (reference_engine 8)
        [JSObject [(''dimensions'', JSBigInt 3), (''metric'', JSString ''cosine'')]]
       = Inl (TypeError ''unknown metric name'')"
proof -
  let ?ops = "reference_engine 8"
  let ?params = "[(''dimensions'', JSBigInt 3), (''metric'', JSString ''cosine'')]"
  have name: "''cosine'' \<notin> set metric_names"
    by (simp add: metric_names_def)
  then have rejected: "isl (metric_from_name ?ops ''cosine'')"
    using unrecognized_names [where name = "''cosine''" and ops = ?ops, THEN conjunct2,
        THEN conjunct1]
    by simp
  have hyp: "map_of ?params ''metric'' = Some (JSString ''cosine'')"
    by simp
  have fails: "isl (Index_Index ?ops [JSObject ?params])"
    using unrecognized_names [where params = ?params and m = "''cosine''" and ops = ?ops]
      hyp rejected by blast
  have "Index_Index ?ops [JSObject ?params] = Inl (TypeError ''unknown metric name'')"
    by (simp add: Index_Index_def uint_param_def name_param_def Uint64Value_def
        r_metric_from_name_def)
  with name rejected hyp fails show ?thesis by simp
qed

subsection \<open>C7: removing a key\<close>

text \<open>
  C7. \<open>Index::Remove\<close> and \<open>Index::remove\<close> return what the engine's \<open>remove\<close> reports; what
  \<open>remove\<close> does to the index is the engine's, so this is proved for the two bindings on
  the reference engine. For a key that is absent, \<open>remove\<close> returns \<open>false\<close>
  without an error and leaves the index, hence \<open>size()\<close>, as it was. For a key that is
  present, the keys being unique, \<open>remove\<close> returns \<open>true\<close>, \<open>size()\<close> is one less afterwards,
  and \<open>contains\<close> of that key returns \<open>false\<close>.
\<close>

theorem remove_present_or_absent:
  "(key \<notin> set (map fst (r_entries s)) \<longrightarrow>
      Index_Remove (reference_engine m) s [JSBigInt (uint key)] = (s, Inr False)
      \<and> Index_remove (reference_engine m) s key = (s, Inr False))
   \<and> (key \<in> set (map fst (r_entries s)) \<and> distinct (map fst (r_entries s)) \<longrightarrow>
      (\<exists>s'. Index_Remove (reference_engine m) s [JSBigInt (uint key)] = (s', Inr True)
          \<and> Index_remove (reference_engine m) s key = (s', Inr True)
          \<and> GetSize (reference_engine m) s' + 1 = GetSize (reference_engine m) s
          \<and> Index_size (reference_engine m) s' + 1 = Index_size (reference_engine m) s
          \<and> Index_Contains (reference_engine m) s' [JSBigInt (uint key)] = (s', Inr False)
          \<and> Index_contains (reference_engine m) s' key = (s', Inr False)))"
proof (intro conjI impI)
  assume absent: "key \<notin> set (map fst (r_entries s))"
  then have "native_remove (reference_engine m) s key =
      (s, Returned \<lparr>error = None, completed = False\<rparr>)"
    by (simp add: r_remove_def)
  then show "Index_Remove (reference_engine m) s [JSBigInt (uint key)] = (s, Inr False)"
    "Index_remove (reference_engine m) s key = (s, Inr False)"
    by (simp_all add: Index_Remove_returned Index_remove_returned)
next
  assume present: "key \<in> set (map fst (r_entries s)) \<and> distinct (map fst (r_entries s))"
  let ?s' = "s\<lparr>r_entries := filter (\<lambda>e. fst e \<noteq> key) (r_entries s)\<rparr>"
  have removed: "native_remove (reference_engine m) s key =
      (?s', Returned \<lparr>error = None, completed = True\<rparr>)"
    using present by (simp add: r_remove_def)
  have size: "length (r_entries ?s') + 1 = length (r_entries s)"
    using present length_filter_key [of "r_entries s" key] by simp
  have gone: "native_contains (reference_engine m) ?s' key = (?s', Returned False)"
    by (auto simp add: r_contains_def)
  have "Index_Remove (reference_engine m) s [JSBigInt (uint key)] = (?s', Inr True)"
    "Index_remove (reference_engine m) s key = (?s', Inr True)"
    "GetSize (reference_engine m) ?s' + 1 = GetSize (reference_engine m) s"
    "Index_size (reference_engine m) ?s' + 1 = Index_size (reference_engine m) s"
    "Index_Contains (reference_engine m) ?s' [JSBigInt (uint key)] = (?s', Inr False)"
    "Index_contains (reference_engine m) ?s' key = (?s', Inr False)"
    using size
    by (simp_all add: Index_Remove_returned [OF removed] Index_remove_returned [OF removed]
        Index_Contains_returned [OF gone] Index_contains_returned [OF gone]
        GetSize_def Index_size_def)
  then show "\<exists>s'. Index_Remove (reference_engine m) s [JSBigInt (uint key)] = (s', Inr True)
          \<and> Index_remove (reference_engine m) s key = (s', Inr True)
          \<and> GetSize (reference_engine m) s' + 1 = GetSize (reference_engine m) s
          \<and> Index_size (reference_engine m) s' + 1 = Index_size (reference_engine m) s
          \<and> Index_Contains (reference_engine m) s' [JSBigInt (uint key)] = (s', Inr False)
          \<and> Index_contains (reference_engine m) s' key = (s', Inr False)"
    by blast
qed

theorem remove_present_or_absent_witness:
  "(6 :: key_t) \<notin> set (map fst (r_entries one_entry))
   \<and> Index_Remove (reference_engine 8) one_entry [JSBigInt 6] = (one_entry, Inr False)
   \<and> (5 :: key_t) \<in> set (map fst (r_entries one_entry))
   \<and> distinct (map fst (r_entries one_entry))
   \<and> (\<exists>s'. Index_Remove (reference_engine 8) one_entry [JSBigInt 5] = (s', Inr True)
          \<and> GetSize (reference_engine 8) s' + 1 = GetSize (reference_engine 8) one_entry
          \<and> Index_Contains (reference_engine 8) s' [JSBigInt 5] = (s', Inr False))
   \<and> GetSize (reference_engine 8) one_entry = 1"
proof -
  let ?ops = "reference_engine 8"
  have hyp: "(6 :: key_t) \<notin> set (map fst (r_entries one_entry))"
    "(5 :: key_t) \<in> set (map fst (r_entries one_entry))
      \<and> distinct (map fst (r_entries one_entry))"
    by (simp_all add: one_entry_def fresh_def)
  have absent: "Index_Remove ?ops one_entry [JSBigInt (uint (6 :: key_t))] = (one_entry, Inr False)"
    using remove_present_or_absent [of 6 one_entry 8] hyp by blast
  have "\<exists>s'. Index_Remove ?ops one_entry [JSBigInt (uint (5 :: key_t))] = (s', Inr True)
          \<and> GetSize ?ops s' + 1 = GetSize ?ops one_entry
          \<and> Index_Contains ?ops s' [JSBigInt (uint (5 :: key_t))] = (s', Inr False)"
    using remove_present_or_absent [of 5 one_entry 8] hyp by blast
  with absent hyp show ?thesis
    by (simp add: GetSize_def one_entry_def fresh_def)
qed

subsection \<open>C8: the path argument\<close>

text \<open>
  C8, as the code has it. The claim that the empty string is refused before the file
  system is touched does not hold: \<open>Index::Save\<close>, \<open>Index::Load\<close> and \<open>Index::View\<close> test that
  the argument is a string, and the empty string is one. Each of the three hands it to
  the engine; on the reference engine \<open>Index::Save\<close> writes a file of that name and no
  error reaches the host.
\<close>

theorem empty_path_reaches_engine:
  "IsString (JSString '''')
   \<and> Index_Save (logged (reference_engine 8)) (fresh 2 0, []) [JSString ''''] =
       (((fresh 2 0)\<lparr>r_files := [('''', [])]\<rparr>, [Save '''']), [])
   \<and> Index_Save (logged (reference_engine 8)) (fresh 2 0, []) [JSString ''''] \<noteq>
       ((fresh 2 0, []), [TypeError ''Function expects a string path argument''])
   \<and> calls (Index_Load (logged (reference_engine 8)) (fresh 2 0, []) [JSString '''']) =
       [Load '''']
   \<and> calls (Index_View (logged (reference_engine 8)) (fresh 2 0, []) [JSString '''']) =
       [View '''']"
  by (simp add: Index_Save_def Index_Load_def Index_View_def persist_string calls_def
      record_call_def c_str_def fresh_def r_save_def r_load_def ok_def failed_def)

text \<open>
  C8, amended. With no argument, or a first argument that is not a string, each of
  \<open>Index::Save\<close>, \<open>Index::Load\<close> and \<open>Index::View\<close> hands the host the type error
  \<open>Function expects a string path argument\<close> and calls no member of the engine. With a
  string as first argument, the empty string included, each calls its member of the
  engine with the characters of the string up to the first NUL.
\<close>

theorem path_argument:
  "(ctx = [] \<or> \<not> IsString (ctx ! 0) \<longrightarrow>
      Index_Save (logged ops) (s, l) ctx =
        ((s, l), [TypeError ''Function expects a string path argument''])
      \<and> Index_Load (logged ops) (s, l) ctx =
        ((s, l), [TypeError ''Function expects a string path argument''])
      \<and> Index_View (logged ops) (s, l) ctx =
        ((s, l), [TypeError ''Function expects a string path argument'']))
   \<and> calls (Index_Save (logged ops) (s, l) (JSString path # rest)) = l @ [Save (c_str path)]
   \<and> calls (Index_Load (logged ops) (s, l) (JSString path # rest)) = l @ [Load (c_str path)]
   \<and> calls (Index_View (logged ops) (s, l) (JSString path # rest)) = l @ [View (c_str path)]
   \<and> c_str '''' = ''''"
proof (intro conjI impI)
  assume "ctx = [] \<or> \<not> IsString (ctx ! 0)"
  then show "Index_Save (logged ops) (s, l) ctx =
        ((s, l), [TypeError ''Function expects a string path argument''])"
    "Index_Load (logged ops) (s, l) ctx =
        ((s, l), [TypeError ''Function expects a string path argument''])"
    "Index_View (logged ops) (s, l) ctx =
        ((s, l), [TypeError ''Function expects a string path argument''])"
    by (simp_all add: Index_Save_def Index_Load_def Index_View_def persist_refused)
next
  show "calls (Index_Save (logged ops) (s, l) (JSString path # rest)) = l @ [Save (c_str path)]"
    using calls_persist [of Save "native_save ops"]
    by (simp add: Index_Save_def logged_def)
  show "calls (Index_Load (logged ops) (s, l) (JSString path # rest)) = l @ [Load (c_str path)]"
    using calls_persist [of Load "native_load ops"]
    by (simp add: Index_Load_def logged_def)
  show "calls (Index_View (logged ops) (s, l) (JSString path # rest)) = l @ [View (c_str path)]"
    using calls_persist [of View "native_view ops"]
    by (simp add: Index_View_def logged_def)
  show "c_str '''' = ''''" by (simp add: c_str_def)
qed

theorem path_argument_witness:
  "\<not> IsString ([JSBigInt 1] ! 0)
   \<and> Index_Save (logged (reference_engine 8)) (fresh 2 0, []) [] =
       ((fresh 2 0, []), [TypeError ''Function expects a string path argument''])
   \<and> Index_Load (logged (reference_engine 8)) (fresh 2 0, []) [JSBigInt 1] =
       ((fresh 2 0, []), [TypeError ''Function expects a string path argument''])
   \<and> calls (Index_Save (logged (reference_engine 8)) (fresh 2 0, []) [JSString ''a.idx'']) =
       [Save ''a.idx'']"
proof -
  let ?ops = "reference_engine 8"
  have none: "Index_Save (logged ?ops) (fresh 2 0, []) [] =
       ((fresh 2 0, []), [TypeError ''Function expects a string path argument''])"
    using path_argument [of "[]" ?ops "fresh 2 0" "[]"] by simp
  have other: "Index_Load (logged ?ops) (fresh 2 0, []) [JSBigInt 1] =
       ((fresh 2 0, []), [TypeError ''Function expects a string path argument''])"
    using path_argument [of "[JSBigInt 1]" ?ops "fresh 2 0" "[]"] by simp
  have "calls (Index_Save (logged ?ops) (fresh 2 0, []) [JSString ''a.idx'']) =
       [] @ [Save (c_str ''a.idx'')]"
    using path_argument [of _ ?ops "fresh 2 0" "[]" "''a.idx''" "[]"] by blast
  with none other show ?thesis by (simp add: c_str_def)
qed

subsection \<open>C9: errors the engine reports in its result\<close>



subsection \<open>C10: the \<open>Matches\<close> of the Rust binding\<close>

text \<open>
  C10. Whenever \<open>Index::search\<close> of the Rust binding returns a \<open>Matches\<close>, its \<open>keys\<close> and
  \<open>distances\<close> have the same length, and this length is at most the number of matches
  asked for. The engine has then returned a result without an error, and when it reports
  no more matches than were asked for, that length is the number it reported: \<open>keys\<close> and
  \<open>distances\<close> are the engine's matches, what \<open>truncate\<close> leaves of the buffers. A \<open>Matches\<close>
  is returned whenever the engine returns a result without an error. The loop that fills
  the buffers before the engine is called fills them with zeros, as many as were asked
  for.
\<close>

theorem rust_search_matches:
  "(Index_search ops s v n0 = (s', Inr m) \<longrightarrow>
      length (keys m) = length (distances m) \<and> length (keys m) \<le> n0)
   \<and> (Index_search ops s v n0 = (s', Inr m)
      \<and> native_search ops s v n0 = (s'', Returned result)
      \<and> length (found result) \<le> n0 \<longrightarrow>
      s' = s'' \<and> error result = None
      \<and> length (keys m) = length (found result)
      \<and> keys m = take (length (found result))
           (dump_to (map fst (found result)) (replicate n0 0))
      \<and> distances m = take (length (found result))
           (dump_to (map snd (found result)) (replicate n0 0))
      \<and> keys m = map fst (found result)
      \<and> distances m = map snd (found result))
   \<and> (native_search ops s v n0 = (s'', Returned result) \<and> error result = None \<longrightarrow>
        (\<exists>m. Index_search ops s v n0 = (s'', Inr m)))
   \<and> push_zeros n0 ([] :: key_t list) = replicate n0 0
   \<and> push_zeros n0 ([] :: f32 list) = replicate n0 0"
proof (intro conjI impI)
  assume h: "Index_search ops s v n0 = (s', Inr m)"
  then obtain result' where r': "native_search ops s v n0 = (s', Returned result')"
    "error result' = None"
    using Index_search_Inr [of ops s v n0 s' m] by blast
  with h have "m = \<lparr>keys = take (length (found result'))
                   (dump_to (map fst (found result')) (replicate n0 0)),
               distances = take (length (found result'))
                   (dump_to (map snd (found result')) (replicate n0 0))\<rparr>"
    using Index_search_returned [of ops s v n0 s' result'] by simp
  then show "length (keys m) = length (distances m)" "length (keys m) \<le> n0"
    by simp_all
next
  assume h: "Index_search ops s v n0 = (s', Inr m)
      \<and> native_search ops s v n0 = (s'', Returned result)
      \<and> length (found result) \<le> n0"
  then obtain result' where r': "native_search ops s v n0 = (s', Returned result')"
    "error result' = None"
    using Index_search_Inr [of ops s v n0 s' m] by blast
  with h have same: "s' = s''" "result' = result" by simp_all
  with r' show "s' = s''" "error result = None" by simp_all
  from r' same h have m: "m = \<lparr>keys = take (length (found result))
                   (dump_to (map fst (found result)) (replicate n0 0)),
               distances = take (length (found result))
                   (dump_to (map snd (found result)) (replicate n0 0))\<rparr>"
    using Index_search_returned [of ops s v n0 s' result] by simp
  then show "keys m = take (length (found result))
           (dump_to (map fst (found result)) (replicate n0 0))"
    "distances m = take (length (found result))
           (dump_to (map snd (found result)) (replicate n0 0))"
    by simp_all
  from m h show "keys m = map fst (found result)" "distances m = map snd (found result)"
    using take_dump_to [of "map fst (found result)" "replicate n0 0"]
      take_dump_to [of "map snd (found result)" "replicate n0 0"]
    by simp_all
  then show "length (keys m) = length (found result)"
    by simp
next
  assume "native_search ops s v n0 = (s'', Returned result) \<and> error result = None"
  then show "\<exists>m. Index_search ops s v n0 = (s'', Inr m)"
    by (simp add: Index_search_returned)
qed (simp_all add: push_zeros_replicate)

theorem rust_search_matches_witness:
  "Index_search (reference_engine 8) one_entry [1, 2] 3 =
     (one_entry, Inr \<lparr>keys = [5], distances = [0]\<rparr>)
   \<and> native_search (reference_engine 8) one_entry [1, 2] 3 =
       (one_entry, Returned \<lparr>error = None, found = [(5, 0)]\<rparr>)
   \<and> length (found \<lparr>error = None, found = [(5 :: key_t, 0 :: f32)]\<rparr>) \<le> 3
   \<and> length (keys \<lparr>keys = [5 :: key_t], distances = [0 :: f32]\<rparr>)
       = length (distances \<lparr>keys = [5 :: key_t], distances = [0 :: f32]\<rparr>)
   \<and> length (keys \<lparr>keys = [5 :: key_t], distances = [0 :: f32]\<rparr>) \<le> 3
   \<and> push_zeros 3 ([] :: key_t list) = [0, 0, 0]"
proof -
  let ?ops = "reference_engine 8"
  let ?result = "\<lparr>error = None, found = [(5 :: key_t, 0 :: f32)]\<rparr>"
  let ?m = "\<lparr>keys = [5 :: key_t], distances = [0 :: f32]\<rparr>"
  have engine: "native_search ?ops one_entry [1, 2] 3 = (one_entry, Returned ?result)"
    by (simp add: one_entry_def fresh_def r_search_def numeral_3_eq_3)
  have run: "Index_search ?ops one_entry [1, 2] 3 = (one_entry, Inr ?m)"
    by (simp add: Index_search_returned [OF engine] dump_to_def)
  note inst = rust_search_matches [of ?ops one_entry "[1, 2]" 3 one_entry ?m one_entry ?result]
  from inst run engine have "length (keys ?m) = length (distances ?m)"
    "length (keys ?m) \<le> 3" "push_zeros 3 ([] :: key_t list) = replicate 3 0"
    by simp_all
  with run engine show ?thesis by (simp add: numeral_3_eq_3)
qed

end
